theory Spec2Isabelle
  imports Main "HOL-Library.Word" "HOL-Library.Sublist"
begin

section \<open>JavaScript strings\<close>

text \<open>
  A JavaScript string is a sequence of UTF-16 code units. The built-in string methods the
  program calls (\<^verbatim>\<open>trim\<close>, \<^verbatim>\<open>split\<close>, \<^verbatim>\<open>includes\<close>, \<^verbatim>\<open>toLowerCase\<close>) are modelled on
  that representation, after ECMAScript.
\<close>

type_synonym jschar = "16 word"
type_synonym jsstring = "jschar list"

text \<open>A string literal of the source, as its code units.\<close>

definition js :: "string \<Rightarrow> jsstring" where
  "js s = map (\<lambda>c. of_nat (of_char c)) s"

text \<open>ECMAScript LineTerminator: LF, CR, LS, PS.\<close>

definition isLineTerminator :: "jschar \<Rightarrow> bool" where
  "isLineTerminator c = (c = 0x0A \<or> c = 0x0D \<or> c = 0x2028 \<or> c = 0x2029)"

text \<open>
  ECMAScript WhiteSpace together with LineTerminator: the code units that \<^verbatim>\<open>trim\<close> strips
  and that \<^verbatim>\<open>\s\<close> matches (TAB, VT, FF, SP, NBSP, ZWNBSP and the other space separators).
\<close>

definition isWhiteSpace :: "jschar \<Rightarrow> bool" where
  "isWhiteSpace c =
     (c = 0x09 \<or> c = 0x0B \<or> c = 0x0C \<or> c = 0x20 \<or> c = 0xA0 \<or> c = 0x1680 \<or>
      (0x2000 \<le> c \<and> c \<le> 0x200A) \<or> c = 0x202F \<or> c = 0x205F \<or> c = 0x3000 \<or>
      c = 0xFEFF \<or> isLineTerminator c)"

text \<open>\<^verbatim>\<open>String.prototype.trim\<close>: strips white space from both ends.\<close>

definition trim :: "jsstring \<Rightarrow> jsstring" where
  "trim s = rev (dropWhile isWhiteSpace (rev (dropWhile isWhiteSpace s)))"

text \<open>
  \<^verbatim>\<open>String.prototype.split\<close> with a one-code-unit separator: the pieces between the
  separators, in order; a string without the separator is its own single piece, and the
  empty string gives one empty piece.
\<close>

fun split_js :: "jsstring \<Rightarrow> jschar \<Rightarrow> jsstring list" where
  "split_js [] sep = [[]]"
| "split_js (c # cs) sep =
     (if c = sep then [] # split_js cs sep
      else (case split_js cs sep of
              [] \<Rightarrow> [[c]]
            | piece # pieces \<Rightarrow> (c # piece) # pieces))"

text \<open>\<^verbatim>\<open>String.prototype.includes\<close>: the second string occurs somewhere in the first.\<close>

fun includes_js :: "jsstring \<Rightarrow> jsstring \<Rightarrow> bool" where
  "includes_js [] needle = (needle = [])"
| "includes_js (c # cs) needle = (prefix needle (c # cs) \<or> includes_js cs needle)"

text \<open>
  \<^verbatim>\<open>String.prototype.toLowerCase\<close>, on the code units: \<^verbatim>\<open>A\<close>-\<^verbatim>\<open>Z\<close> become \<^verbatim>\<open>a\<close>-\<^verbatim>\<open>z\<close>. The
  lower-case mappings of the characters outside ASCII are not tabulated: those code units
  are left as they are. The program only searches the result for the ASCII markers
  \<^verbatim>\<open>person a\<close> and \<^verbatim>\<open> a:\<close>; the only characters outside ASCII whose lower case contains an
  ASCII code unit are U+0130 (\<^verbatim>\<open>i\<close>) and U+212A (\<^verbatim>\<open>k\<close>), which occur in neither marker, so
  the searches give what they give in JavaScript.
\<close>

definition asciiLower :: "jschar \<Rightarrow> jschar" where
  "asciiLower c = (if 0x41 \<le> c \<and> c \<le> 0x5A then c + 0x20 else c)"

definition toLowerCase :: "jsstring \<Rightarrow> jsstring" where
  "toLowerCase s = map asciiLower s"

text \<open>The character class \<^verbatim>\<open>[A-Za-z0-9]\<close>.\<close>

definition isAlnum :: "jschar \<Rightarrow> bool" where
  "isAlnum c = ((0x41 \<le> c \<and> c \<le> 0x5A) \<or> (0x61 \<le> c \<and> c \<le> 0x7A) \<or> (0x30 \<le> c \<and> c \<le> 0x39))"

section \<open>\<^verbatim>\<open>src/types.ts\<close>\<close>

record ScriptLine =
  speaker :: jsstring
  text' :: jsstring

record AudioGenerationDetails =
  url :: jsstring
  statusMessage :: jsstring

section \<open>The service: environment and effects\<close>

text \<open>
  A thrown value: an \<^verbatim>\<open>Error\<close> with its message, or a value that is not an \<^verbatim>\<open>Error\<close>
  (the handlers test \<^verbatim>\<open>error instanceof Error\<close>).
\<close>

datatype thrown = Error jsstring | NonError

type_synonym byte = "8 word"
type_synonym ArrayBuffer = "byte list"

text \<open>
  One text-to-speech request: the voice of the target URL and, of the JSON body, the fields
  that vary (the model, the output format and the voice settings are constants).
\<close>

record ttsRequest =
  req_voiceId :: jsstring
  req_text :: jsstring
  previous_text :: "jsstring option"
  next_text :: "jsstring option"

text \<open>
  What the program does not decide: the two credentials of \<^verbatim>\<open>process.env\<close> (\<^verbatim>\<open>None\<close> is
  \<^verbatim>\<open>undefined\<close>), the answers of the two remote services, and the URLs the browser hands
  out for blobs. A service answers a request knowing the requests made before it; its
  answer is a thrown value (the network failed, or the text-to-speech response was not
  \<^verbatim>\<open>ok\<close>) or the payload.
\<close>

record env =
  GEMINI_API_KEY :: "jsstring option"
  ELEVENLABS_API_KEY :: "jsstring option"
  elevenLabs :: "ttsRequest list \<Rightarrow> ttsRequest \<Rightarrow> thrown + ArrayBuffer"
  gemini :: "jsstring list \<Rightarrow> jsstring \<Rightarrow> thrown + jsstring option"
  createObjectURL :: "ArrayBuffer list \<Rightarrow> ArrayBuffer \<Rightarrow> jsstring"

text \<open>
  What the program does to the outside: the text-to-speech requests and the generation
  prompts it has sent, and the blobs it has created, each in order.
\<close>

record world =
  ttsRequests :: "ttsRequest list"
  prompts :: "jsstring list"
  blobs :: "ArrayBuffer list"

text \<open>\<^verbatim>\<open>!KEY\<close>: the credential is \<^verbatim>\<open>undefined\<close> or the empty string.\<close>

definition missing :: "jsstring option \<Rightarrow> bool" where
  "missing key = (case key of None \<Rightarrow> True | Some k \<Rightarrow> k = [])"

text \<open>\<^verbatim>\<open>error instanceof Error ? error.message : fallback\<close>.\<close>

definition messageOr :: "thrown \<Rightarrow> jsstring \<Rightarrow> jsstring" where
  "messageOr e fallback = (case e of Error m \<Rightarrow> m | NonError \<Rightarrow> fallback)"

text \<open>A length in a template string: its decimal digits.\<close>

function decimal :: "nat \<Rightarrow> jsstring" where
  "decimal n = (if n < 10 then [of_nat (48 + n)] else decimal (n div 10) @ [of_nat (48 + n mod 10)])"
  by pat_completeness auto
termination
  by (relation "measure (\<lambda>n. n)") auto

declare decimal.simps [simp del]

text \<open>\<^verbatim>\<open>Array.prototype.join\<close>.\<close>

fun join :: "jsstring list \<Rightarrow> jsstring \<Rightarrow> jsstring" where
  "join [] sep = []"
| "join [x] sep = x"
| "join (x # y # ys) sep = x @ sep @ join (y # ys) sep"

section \<open>Byte buffers\<close>

text \<open>
  \<^verbatim>\<open>concatenateAudioBuffers\<close> builds its result in place, through a typed-array view. The
  buffers it allocates live in a heap (the address of a buffer is its position there); a
  \<^verbatim>\<open>Uint8Array\<close> is a view of a stretch of one of them. The buffers it is given are only
  read, and are taken as their bytes.
\<close>

type_synonym heap = "ArrayBuffer list"

record Uint8Array =
  buffer :: nat
  byteOffset :: nat
  byteLength :: nat

text \<open>\<^verbatim>\<open>new ArrayBuffer(n)\<close>: a fresh buffer of \<^verbatim>\<open>n\<close> zero bytes.\<close>

definition new_ArrayBuffer :: "nat \<Rightarrow> heap \<Rightarrow> nat \<times> heap" where
  "new_ArrayBuffer n h = (length h, h @ [replicate n 0])"

text \<open>\<^verbatim>\<open>new Uint8Array(n)\<close>: a view of the whole of a fresh buffer of \<^verbatim>\<open>n\<close> zero bytes.\<close>

definition new_Uint8Array_ofLength :: "nat \<Rightarrow> heap \<Rightarrow> Uint8Array \<times> heap" where
  "new_Uint8Array_ofLength n h =
     (case new_ArrayBuffer n h of
        (a, h') \<Rightarrow> (\<lparr>buffer = a, byteOffset = 0, byteLength = n\<rparr>, h'))"

text \<open>\<^verbatim>\<open>new Uint8Array(buffer)\<close>: a view of the whole of an existing buffer.\<close>

definition new_Uint8Array_ofBuffer :: "nat \<Rightarrow> heap \<Rightarrow> Uint8Array" where
  "new_Uint8Array_ofBuffer a h = \<lparr>buffer = a, byteOffset = 0, byteLength = length (h ! a)\<rparr>"

text \<open>
  \<^verbatim>\<open>target.set(source, offset)\<close>: throws a \<^verbatim>\<open>RangeError\<close> when the source does not fit
  behind the offset; otherwise the bytes of the source overwrite those of the viewed
  buffer from the offset on.
\<close>

definition Uint8Array_set :: "Uint8Array \<Rightarrow> ArrayBuffer \<Rightarrow> nat \<Rightarrow> heap \<Rightarrow> thrown + heap" where
  "Uint8Array_set target source offset h =
     (if offset + length source > byteLength target then
        Inl (Error (js ''offset is out of bounds''))
      else
        (let old = h ! buffer target;
             start = byteOffset target + offset
         in Inr (h[buffer target := take start old @ source @ drop (start + length source) old])))"

text \<open>
  The loop of both versions of \<^verbatim>\<open>concatenateAudioBuffers\<close>:
  \<^verbatim>\<open>for (const buffer of buffers) { view.set(new Uint8Array(buffer), offset); offset += buffer.byteLength; }\<close>
\<close>

fun setLoop :: "Uint8Array \<Rightarrow> ArrayBuffer list \<Rightarrow> nat \<Rightarrow> heap \<Rightarrow> thrown + heap" where
  "setLoop view [] offset h = Inr h"
| "setLoop view (buf # rest) offset h =
     (case Uint8Array_set view buf offset h of
        Inl e \<Rightarrow> Inl e
      | Inr h' \<Rightarrow> setLoop view rest (offset + length buf) h')"

text \<open>
  \<^verbatim>\<open>concatenateAudioBuffers\<close> of \<^verbatim>\<open>src/unnamed/part_000\<close>: builds a \<^verbatim>\<open>Uint8Array\<close> and returns
  its underlying buffer.
\<close>

definition concatenateAudioBuffers :: "ArrayBuffer list \<Rightarrow> thrown + ArrayBuffer" where
  "concatenateAudioBuffers buffers =
     (let totalLength = foldl (\<lambda>sum buffer. sum + length buffer) 0 buffers
      in case new_Uint8Array_ofLength totalLength [] of
           (result, h) \<Rightarrow>
             (case setLoop result buffers 0 h of
                Inl e \<Rightarrow> Inl e
              | Inr h' \<Rightarrow> Inr (h' ! buffer result)))"

text \<open>
  \<^verbatim>\<open>concatenateAudioBuffers\<close> of \<^verbatim>\<open>src/services/aiService.ts\<close>: allocates the
  \<^verbatim>\<open>ArrayBuffer\<close>, fills it through a \<^verbatim>\<open>Uint8Array\<close> view, and returns the buffer.
\<close>

definition concatenateAudioBuffers_aiService :: "ArrayBuffer list \<Rightarrow> thrown + ArrayBuffer" where
  "concatenateAudioBuffers_aiService buffers =
     (let totalLength = foldl (\<lambda>sum buffer. sum + length buffer) 0 buffers
      in case new_ArrayBuffer totalLength [] of
           (result, h) \<Rightarrow>
             (let resultView = new_Uint8Array_ofBuffer result h
              in case setLoop resultView buffers 0 h of
                   Inl e \<Rightarrow> Inl e
                 | Inr h' \<Rightarrow> Inr (h' ! result)))"

section \<open>The audio synthesizer\<close>

definition VOICE_ID_PERSON_A :: jsstring where
  "VOICE_ID_PERSON_A = js ''WAhoMTNdLdMoq1j3wf3I''"

definition VOICE_ID_PERSON_B :: jsstring where
  "VOICE_ID_PERSON_B = js ''KH1SQLVulwP6uG4O3nmT''"

text \<open>The URL both return paths of the synthesizer write out for the placeholder audio.\<close>

definition PLACEHOLDER_AUDIO_URL :: jsstring where
  "PLACEHOLDER_AUDIO_URL =
     js ''https://interactive-examples.mdn.mozilla.net/media/cc0-audio/t-rex-roar.mp3''"

text \<open>\<^verbatim>\<open>const voiceId = ...\<close> in the loop of the synthesizer, the same in both service files.\<close>

definition voiceId :: "ScriptLine \<Rightarrow> jsstring" where
  "voiceId line =
     (if includes_js (toLowerCase (speaker line)) (js ''person a'') \<or>
         includes_js (toLowerCase (speaker line)) (js '' a:'')
      then VOICE_ID_PERSON_A
      else VOICE_ID_PERSON_B)"

text \<open>
  \<^verbatim>\<open>generateAudioSegment\<close> of \<^verbatim>\<open>src/unnamed/part_000\<close>: one POST to the text-to-speech
  service. It throws when \<^verbatim>\<open>fetch\<close> fails or the response is not \<^verbatim>\<open>ok\<close> (an \<^verbatim>\<open>Error\<close> whose
  message it builds from the status and the body of the response, both decided by the
  service), and returns the bytes of the response otherwise.
\<close>

definition generateAudioSegment ::
  "env \<Rightarrow> jsstring \<Rightarrow> jsstring \<Rightarrow> world \<Rightarrow> (thrown + ArrayBuffer) \<times> world" where
  "generateAudioSegment env text voice w =
     (let request = \<lparr>req_voiceId = voice, req_text = text,
                      previous_text = None, next_text = None\<rparr>
      in (elevenLabs env (ttsRequests w) request,
          w\<lparr>ttsRequests := ttsRequests w @ [request]\<rparr>))"

text \<open>
  \<^verbatim>\<open>generateAudioSegment\<close> of \<^verbatim>\<open>src/services/aiService.ts\<close>: the context arguments are
  optional, and enter the request only when truthy.
\<close>

definition truthy :: "jsstring option \<Rightarrow> jsstring option" where
  "truthy v = (case v of None \<Rightarrow> None | Some s \<Rightarrow> if s = [] then None else Some s)"

definition generateAudioSegment_aiService ::
  "env \<Rightarrow> jsstring \<Rightarrow> jsstring \<Rightarrow> jsstring option \<Rightarrow> jsstring option \<Rightarrow> world
     \<Rightarrow> (thrown + ArrayBuffer) \<times> world" where
  "generateAudioSegment_aiService env text voice previousText nextText w =
     (let request = \<lparr>req_voiceId = voice, req_text = text,
                      previous_text = truthy previousText, next_text = truthy nextText\<rparr>
      in (elevenLabs env (ttsRequests w) request,
          w\<lparr>ttsRequests := ttsRequests w @ [request]\<rparr>))"

text \<open>
  The \<^verbatim>\<open>for (let i = 0; i < scriptLines.length; i++)\<close> loop of the synthesizer of
  \<^verbatim>\<open>src/unnamed/part_000\<close>, from \<^verbatim>\<open>i\<close> on: a line with no text is skipped; a request that throws
  leaves the loop with the thrown value. The pause between two requests is not modelled.
\<close>

function synthLoop ::
  "env \<Rightarrow> ScriptLine list \<Rightarrow> nat \<Rightarrow> ArrayBuffer list \<Rightarrow> world
     \<Rightarrow> (thrown + ArrayBuffer list) \<times> world" where
  "synthLoop env scriptLines i audioSegments w =
     (if i < length scriptLines then
        (let line = scriptLines ! i
         in if text' line = [] \<or> trim (text' line) = [] then
              synthLoop env scriptLines (i + 1) audioSegments w
            else
              (case generateAudioSegment env (text' line) (voiceId line) w of
                 (Inl e, w') \<Rightarrow> (Inl e, w')
               | (Inr audioBuffer, w') \<Rightarrow>
                   synthLoop env scriptLines (i + 1) (audioSegments @ [audioBuffer]) w'))
      else (Inr audioSegments, w))"
  by pat_completeness auto
termination
  by (relation "measure (\<lambda>(env, scriptLines, i, audioSegments, w). length scriptLines - i)") auto

declare synthLoop.simps [simp del]

text \<open>The \<^verbatim>\<open>catch\<close> block of the synthesizer, the same in both service files.\<close>

definition synthesisFailed :: "thrown \<Rightarrow> AudioGenerationDetails" where
  "synthesisFailed e =
     (let errorMessage = messageOr e (js ''Unknown error'')
      in \<lparr>url = PLACEHOLDER_AUDIO_URL,
          statusMessage = js ''Multi-voice audio generation failed: '' @ errorMessage @
                          js ''. Placeholder audio provided.''\<rparr>)"

text \<open>
  \<^verbatim>\<open>generateAudioWithElevenLabs\<close> of \<^verbatim>\<open>src/unnamed/part_000\<close>. The blob holds the bytes of
  the concatenated buffer; creating it and its URL is taken not to throw. The console
  output is not modelled.
\<close>

definition generateAudioWithElevenLabs ::
  "env \<Rightarrow> ScriptLine list \<Rightarrow> world \<Rightarrow> AudioGenerationDetails \<times> world" where
  "generateAudioWithElevenLabs env scriptLines w =
     (if missing (ELEVENLABS_API_KEY env) then
        (\<lparr>url = PLACEHOLDER_AUDIO_URL,
          statusMessage =
            js ''Audio generation simulated (API key missing). Placeholder audio provided.''\<rparr>, w)
      else if length scriptLines = 0 then
        (\<lparr>url = [], statusMessage = js ''No script lines to generate audio from.''\<rparr>, w)
      else
        (case synthLoop env scriptLines 0 [] w of
           (Inl e, w') \<Rightarrow> (synthesisFailed e, w')
         | (Inr audioSegments, w') \<Rightarrow>
             if length audioSegments = 0 then
               (\<lparr>url = [],
                 statusMessage =
                   js ''No audio generated as all script lines were empty or resulted in no audio.''\<rparr>,
                w')
             else
               (case concatenateAudioBuffers audioSegments of
                  Inl e \<Rightarrow> (synthesisFailed e, w')
                | Inr finalAudioBuffer \<Rightarrow>
                    (let audioBlob = finalAudioBuffer;
                         audioUrl = createObjectURL env (blobs w') audioBlob
                     in (\<lparr>url = audioUrl,
                          statusMessage =
                            js ''Audio successfully generated with '' @
                            decimal (length audioSegments) @
                            js '' segments using multiple voices.''\<rparr>,
                         w'\<lparr>blobs := blobs w' @ [audioBlob]\<rparr>)))))"

text \<open>
  The loop of the synthesizer of \<^verbatim>\<open>src/services/aiService.ts\<close>: every line is sent, with
  the texts before and after it as context.
\<close>

function synthLoop_aiService ::
  "env \<Rightarrow> ScriptLine list \<Rightarrow> nat \<Rightarrow> ArrayBuffer list \<Rightarrow> world
     \<Rightarrow> (thrown + ArrayBuffer list) \<times> world" where
  "synthLoop_aiService env scriptLines i audioSegments w =
     (if i < length scriptLines then
        (let line = scriptLines ! i;
             previousText =
               (if i > 0 then Some (join (map text' (take i scriptLines)) (js '' '')) else None);
             nextText =
               (if i < length scriptLines - 1
                then Some (join (map text' (drop (i + 1) scriptLines)) (js '' ''))
                else None)
         in case generateAudioSegment_aiService env (text' line) (voiceId line)
                   previousText nextText w of
              (Inl e, w') \<Rightarrow> (Inl e, w')
            | (Inr audioBuffer, w') \<Rightarrow>
                synthLoop_aiService env scriptLines (i + 1) (audioSegments @ [audioBuffer]) w')
      else (Inr audioSegments, w))"
  by pat_completeness auto
termination
  by (relation "measure (\<lambda>(env, scriptLines, i, audioSegments, w). length scriptLines - i)") auto

declare synthLoop_aiService.simps [simp del]

text \<open>\<^verbatim>\<open>generateAudioWithElevenLabs\<close> of \<^verbatim>\<open>src/services/aiService.ts\<close>.\<close>

definition generateAudioWithElevenLabs_aiService ::
  "env \<Rightarrow> ScriptLine list \<Rightarrow> world \<Rightarrow> AudioGenerationDetails \<times> world" where
  "generateAudioWithElevenLabs_aiService env scriptLines w =
     (if missing (ELEVENLABS_API_KEY env) then
        (\<lparr>url = PLACEHOLDER_AUDIO_URL,
          statusMessage =
            js ''Audio generation simulated (API key missing). Placeholder audio provided.''\<rparr>, w)
      else if length scriptLines = 0 then
        (\<lparr>url = [], statusMessage = js ''No script lines to generate audio from.''\<rparr>, w)
      else
        (case synthLoop_aiService env scriptLines 0 [] w of
           (Inl e, w') \<Rightarrow> (synthesisFailed e, w')
         | (Inr audioSegments, w') \<Rightarrow>
             (case concatenateAudioBuffers_aiService audioSegments of
                Inl e \<Rightarrow> (synthesisFailed e, w')
              | Inr finalAudioBuffer \<Rightarrow>
                  (let audioBlob = finalAudioBuffer;
                       audioUrl = createObjectURL env (blobs w') audioBlob
                   in (\<lparr>url = audioUrl,
                        statusMessage =
                          js ''Audio successfully generated with '' @
                          decimal (length scriptLines) @
                          js '' segments using multiple voices.''\<rparr>,
                       w'\<lparr>blobs := blobs w' @ [audioBlob]\<rparr>)))))"

section \<open>What the synthesizer sends\<close>

text \<open>
  For the statements about the synthesizer of \<^verbatim>\<open>src/unnamed/part_000\<close>: the lines it does not
  skip (those whose text is not empty after trimming), the request it builds for a line,
  and the run of a list of requests against the service, which stops at the first thrown
  answer.
\<close>

definition spoken :: "ScriptLine list \<Rightarrow> ScriptLine list" where
  "spoken ls = filter (\<lambda>line. trim (text' line) \<noteq> []) ls"

definition requestFor :: "ScriptLine \<Rightarrow> ttsRequest" where
  "requestFor line =
     \<lparr>req_voiceId = voiceId line, req_text = text' line,
      previous_text = None, next_text = None\<rparr>"

fun sendAll ::
  "env \<Rightarrow> ttsRequest list \<Rightarrow> ttsRequest list
     \<Rightarrow> (thrown + ArrayBuffer list) \<times> ttsRequest list" where
  "sendAll env log [] = (Inr [], log)"
| "sendAll env log (r # rs) =
     (case elevenLabs env log r of
        Inl e \<Rightarrow> (Inl e, log @ [r])
      | Inr b \<Rightarrow>
          (case sendAll env (log @ [r]) rs of
             (Inl e, log') \<Rightarrow> (Inl e, log')
           | (Inr bs, log') \<Rightarrow> (Inr (b # bs), log')))"

section \<open>The script requester\<close>

text \<open>The template string \<^verbatim>\<open>prompt\<close> of \<^verbatim>\<open>generateScript\<close>, line by line.\<close>

definition scriptPrompt :: "jsstring \<Rightarrow> jsstring" where
  "scriptPrompt topic =
     join
       [js ''You are an AI assistant specialized in creating educational content.'',
        js ''    Generate a conversational script between two distinct characters, Person A and Person B.'',
        js ''    The script should explain and explore the following topic: '' @ [0x22] @ topic @ [0x22] @ js ''.'',
        js ''    Make the script engaging, clear, and suitable for a general audience.'',
        js ''    Ensure Person A and Person B have distinct speaking styles or perspectives. The conversation should be one back and forth exchange, underneath 5 words.'',
        js ''    Format each line strictly as 'Person A: [dialogue]' or 'Person B: [dialogue]'. Start directly with the dialogue.'',
        js ''    Do not include any introductory or concluding remarks outside the dialogue format.'',
        js ''    Example:'',
        js ''    Person A: Let's discuss the basics of photosynthesis.'',
        js ''    Person B: Great idea! Where do we start?'',
        js ''    Person A: We can begin with the role of chlorophyll.'']
       [0x0A]"

text \<open>
  \<^verbatim>\<open>generateScript\<close>. The call \<^verbatim>\<open>ai.models.generateContent\<close> sends the prompt (the model name
  and the sampling configuration are constants) and throws or gives a response, whose
  \<^verbatim>\<open>text\<close> is a string or \<^verbatim>\<open>undefined\<close>. The \<^verbatim>\<open>throw\<close> for an empty response stands inside
  the \<^verbatim>\<open>try\<close> block, so the \<^verbatim>\<open>catch\<close> block handles it like a failure of the call; the
  \<^verbatim>\<open>catch\<close> block always throws an \<^verbatim>\<open>Error\<close> of its own.
\<close>

definition generateScript :: "env \<Rightarrow> jsstring \<Rightarrow> world \<Rightarrow> (thrown + jsstring) \<times> world" where
  "generateScript env topic w =
     (if missing (GEMINI_API_KEY env) then
        (Inl (Error (js ''Gemini API Key is not configured. Cannot connect to AI services.'')), w)
      else
        (let prompt = scriptPrompt topic;
             w' = w\<lparr>prompts := prompts w @ [prompt]\<rparr>;
             tried =
               (case gemini env (prompts w) prompt of
                  Inl e \<Rightarrow> Inl e
                | Inr scriptText \<Rightarrow>
                    (case scriptText of
                       None \<Rightarrow>
                         Inl (Error (js ''AI failed to generate a script. The response was empty.''))
                     | Some t \<Rightarrow>
                         if t = [] \<or> trim t = [] then
                           Inl (Error (js ''AI failed to generate a script. The response was empty.''))
                         else Inr t))
         in case tried of
              Inr scriptText \<Rightarrow> (Inr scriptText, w')
            | Inl e \<Rightarrow>
                (let errorMessage =
                       messageOr e (js ''An unknown error occurred during script generation.'');
                     keyNotValid =
                       (case e of
                          Error m \<Rightarrow> includes_js m (js ''API key not valid'')
                        | NonError \<Rightarrow> False)
                 in (Inl (Error
                       (if keyNotValid then
                          js ''The provided Gemini API Key is not valid. Please check your configuration.''
                        else errorMessage)),
                     w'))))"

section \<open>\<^verbatim>\<open>src/App.tsx\<close>: the script parser\<close>

text \<open>
  \<^verbatim>\<open>line.match(/^(Person [A-Za-z0-9]+):\s*(.*)$/i)\<close>: \<^verbatim>\<open>None\<close> is \<^verbatim>\<open>null\<close>, \<^verbatim>\<open>Some (m1, m2)\<close>
  are the two captured groups. The pattern is anchored at both ends (no \<^verbatim>\<open>m\<close> flag), so
  the match is decided from left to right:
  \<^item> the line starts with \<^verbatim>\<open>Person \<close>, letters compared without case (without the \<^verbatim>\<open>u\<close> flag
    the \<^verbatim>\<open>i\<close> flag never equates a code unit outside ASCII with an ASCII one);
  \<^item> \<^verbatim>\<open>[A-Za-z0-9]+\<close> takes the longest run of letters and digits, which is not empty; a
    shorter run would be followed by a letter or digit, not by the colon;
  \<^item> the colon;
  \<^item> \<^verbatim>\<open>\s*\<close> takes the longest run of white space, and \<^verbatim>\<open>(.*)$\<close> the rest of the line,
    which has no line terminator (\<^verbatim>\<open>.\<close> matches none); giving white space back to \<^verbatim>\<open>.*\<close>
    cannot help, since a line terminator in the rest stays in it.
\<close>

definition speakerRegex_match :: "jsstring \<Rightarrow> (jsstring \<times> jsstring) option" where
  "speakerRegex_match line =
     (if toLowerCase (take 7 line) = js ''person '' then
        (let label = takeWhile isAlnum (drop 7 line);
             after = dropWhile isAlnum (drop 7 line)
         in if label \<noteq> [] \<and> take 1 after = js '':'' then
              (let rest = dropWhile isWhiteSpace (drop 1 after)
               in if list_ex isLineTerminator rest then None
                  else Some (take 7 line @ label, rest))
            else None)
      else None)"

text \<open>The \<^verbatim>\<open>for (const line of lines)\<close> loop of \<^verbatim>\<open>parseScriptText\<close>, pushing onto \<^verbatim>\<open>parsedLines\<close>.\<close>

fun parseLoop :: "jsstring list \<Rightarrow> ScriptLine list \<Rightarrow> ScriptLine list" where
  "parseLoop [] parsedLines = parsedLines"
| "parseLoop (line # rest) parsedLines =
     (case speakerRegex_match line of
        Some (m1, m2) \<Rightarrow> parseLoop rest (parsedLines @ [\<lparr>speaker = m1, text' = trim m2\<rparr>])
      | None \<Rightarrow> parseLoop rest parsedLines)"

definition parseScriptText :: "jsstring \<Rightarrow> ScriptLine list" where
  "parseScriptText text =
     (let lines = filter (\<lambda>line. trim line \<noteq> []) (split_js text 0x0A)
      in parseLoop lines [])"

text \<open>
  For the statements about the parser: the lines of a text that are not blank, in order
  (the list \<^verbatim>\<open>lines\<close> of \<^verbatim>\<open>parseScriptText\<close>), and the script line the loop pushes for a line
  that matches.
\<close>

definition nonBlankLines :: "jsstring \<Rightarrow> jsstring list" where
  "nonBlankLines text = filter (\<lambda>line. trim line \<noteq> []) (split_js text 0x0A)"

definition parsedLine :: "jsstring \<Rightarrow> ScriptLine" where
  "parsedLine line =
     \<lparr>speaker = fst (the (speakerRegex_match line)),
      text' = trim (snd (the (speakerRegex_match line)))\<rparr>"

section \<open>\<^verbatim>\<open>src/App.tsx\<close>: the state of the component and the edit handler\<close>

text \<open>The \<^verbatim>\<open>useState\<close> cells of \<^verbatim>\<open>App\<close>; \<^verbatim>\<open>error\<close> is a string or \<^verbatim>\<open>null\<close>.\<close>

record AppState =
  topic :: jsstring
  scriptLines :: "ScriptLine list"
  audioUrl :: jsstring
  audioStatusMessage :: jsstring
  videoUrl :: jsstring
  isLoadingScript :: bool
  isGeneratingAudio :: bool
  isScriptDirty :: bool
  currentStatusMessage :: jsstring
  error :: "jsstring option"

text \<open>
  The updater passed to \<^verbatim>\<open>setScriptLines\<close>. \<^verbatim>\<open>newLines[index]\<close> is an object, hence truthy,
  when \<^verbatim>\<open>index\<close> is an index of the copy, and \<^verbatim>\<open>undefined\<close> otherwise (a negative index, or
  one past the end; an index that is not an integer behaves as one out of range and is not
  modelled). \<^verbatim>\<open>newSpeaker\<close> is optional: \<^verbatim>\<open>None\<close> is \<^verbatim>\<open>undefined\<close>, and \<^verbatim>\<open>newSpeaker || s\<close>
  takes \<^verbatim>\<open>s\<close> when \<^verbatim>\<open>newSpeaker\<close> is \<^verbatim>\<open>undefined\<close> or empty.
\<close>

definition updateScriptLines ::
  "int \<Rightarrow> jsstring \<Rightarrow> jsstring option \<Rightarrow> ScriptLine list \<Rightarrow> ScriptLine list" where
  "updateScriptLines index newText newSpeaker prevLines =
     (let newLines = prevLines
      in if 0 \<le> index \<and> nat index < length newLines then
           newLines[nat index :=
             \<lparr>speaker = (case newSpeaker of
                           Some s \<Rightarrow> if s \<noteq> [] then s else speaker (newLines ! nat index)
                         | None \<Rightarrow> speaker (newLines ! nat index)),
              text' = newText\<rparr>]
         else newLines)"

definition handleUpdateScriptLine ::
  "int \<Rightarrow> jsstring \<Rightarrow> jsstring option \<Rightarrow> AppState \<Rightarrow> AppState" where
  "handleUpdateScriptLine index newText newSpeaker st =
     st\<lparr>scriptLines := updateScriptLines index newText newSpeaker (scriptLines st),
        isScriptDirty := True,
        audioUrl := [],
        audioStatusMessage := js ''Script edited. Please regenerate audio.''\<rparr>"

section \<open>Example inputs\<close>

text \<open>A state of the component with a two-line script and an audio URL.\<close>

definition exampleState :: AppState where
  "exampleState =
     \<lparr>topic = js ''gravity'',
      scriptLines = [\<lparr>speaker = js ''Person A'', text' = js ''Hi''\<rparr>,
                     \<lparr>speaker = js ''Person B'', text' = js ''Yo''\<rparr>],
      audioUrl = js ''blob:1'',
      audioStatusMessage = js ''ok'',
      videoUrl = [],
      isLoadingScript = False,
      isGeneratingAudio = False,
      isScriptDirty = False,
      currentStatusMessage = [],
      error = None\<rparr>"

text \<open>
  An environment with both credentials, whose text-to-speech service fails on the text
  \<^verbatim>\<open>boom\<close> and otherwise answers with the text's code units as bytes; a world in which
  nothing has been sent; and a few script lines.
\<close>

definition exampleEnv :: env where
  "exampleEnv =
     \<lparr>GEMINI_API_KEY = Some (js ''g-key''),
      ELEVENLABS_API_KEY = Some (js ''xi-key''),
      elevenLabs = (\<lambda>log request.
         if req_text request = js ''boom'' then Inl (Error (js ''ElevenLabs API error: 500 - down''))
         else Inr (map ucast (req_text request))),
      gemini = (\<lambda>log prompt. Inr (Some (js ''Person A: Hi''))),
      createObjectURL = (\<lambda>created blob. js ''blob:'' @ decimal (length created))\<rparr>"

definition emptyWorld :: world where
  "emptyWorld = \<lparr>ttsRequests = [], prompts = [], blobs = []\<rparr>"

definition lineHi :: ScriptLine where
  "lineHi = \<lparr>speaker = js ''Person A'', text' = js ''Hi''\<rparr>"

definition lineYo :: ScriptLine where
  "lineYo = \<lparr>speaker = js ''Person B'', text' = js ''Yo''\<rparr>"

definition lineBlank :: ScriptLine where
  "lineBlank = \<lparr>speaker = js ''Person B'', text' = js ''  ''\<rparr>"

definition lineBoom :: ScriptLine where
  "lineBoom = \<lparr>speaker = js ''Person A'', text' = js ''boom''\<rparr>"

text \<open>
  A script text with a leading blank line, a line of white space between its two speaker
  lines, white space around the utterances, and a trailing newline.
\<close>

definition exampleScript :: jsstring where
  "exampleScript =
     [0x0A] @ js ''Person A:  Hi '' @ [0x0A] @ js ''  '' @ [0x0A] @ js ''person b2:yo'' @ [0x0A]"

section \<open>Properties: the two versions of the concatenation\<close>

lemma totalLength_concat:
  "foldl (\<lambda>sum b. sum + length b) n bs = n + length (concat bs)"
  by (induction bs arbitrary: n) auto

lemma Uint8Array_set_fits:
  assumes "byteOffset view = 0"
    and "byteLength view = length (h ! buffer view)"
    and "h ! buffer view = pre @ replicate (length b + k) 0"
  shows "Uint8Array_set view b (length pre) h =
           Inr (h[buffer view := (pre @ b) @ replicate k 0])"
  using assms by (simp add: Uint8Array_set_def Let_def replicate_add)

lemma setLoop_fills:
  assumes "buffer view < length h"
    and "byteOffset view = 0"
    and "byteLength view = length (h ! buffer view)"
    and "h ! buffer view = pre @ replicate (length (concat bs)) 0"
  shows "\<exists>h'. setLoop view bs (length pre) h = Inr h' \<and> h' ! buffer view = pre @ concat bs"
  using assms
proof (induction bs arbitrary: h pre)
  case Nil
  then show ?case by simp
next
  case (Cons b bs)
  let ?h = "h[buffer view := (pre @ b) @ replicate (length (concat bs)) 0]"
  have step: "Uint8Array_set view b (length pre) h = Inr ?h"
    using Cons.prems by (intro Uint8Array_set_fits) simp_all
  have "\<exists>h'. setLoop view bs (length (pre @ b)) ?h = Inr h' \<and>
          h' ! buffer view = (pre @ b) @ concat bs"
    using Cons.prems by (intro Cons.IH) simp_all
  then show ?case
    using step by (simp add: add.commute)
qed

lemma setLoop_fresh:
  "\<exists>h'. setLoop \<lparr>buffer = 0, byteOffset = 0, byteLength = length (concat bs)\<rparr> bs 0
           [replicate (length (concat bs)) 0] = Inr h' \<and> h' ! 0 = concat bs"
proof -
  let ?v = "\<lparr>buffer = 0, byteOffset = 0, byteLength = length (concat bs)\<rparr>"
  have "\<exists>h'. setLoop ?v bs (length ([] :: byte list)) [replicate (length (concat bs)) 0] = Inr h' \<and>
          h' ! buffer ?v = [] @ concat bs"
    by (intro setLoop_fills) simp_all
  then show ?thesis by simp
qed

lemma concatenateAudioBuffers_concat:
  "concatenateAudioBuffers buffers = Inr (concat buffers)"
  using setLoop_fresh [of buffers]
  by (auto simp add: concatenateAudioBuffers_def totalLength_concat
      new_Uint8Array_ofLength_def new_ArrayBuffer_def)

lemma concatenateAudioBuffers_aiService_concat:
  "concatenateAudioBuffers_aiService buffers = Inr (concat buffers)"
  using setLoop_fresh [of buffers]
  by (auto simp add: concatenateAudioBuffers_aiService_def totalLength_concat
      new_Uint8Array_ofBuffer_def new_ArrayBuffer_def)

text \<open>
  C10: on every list of byte buffers the two versions of \<^verbatim>\<open>concatenateAudioBuffers\<close> (the
  one of \<^verbatim>\<open>src/services/aiService.ts\<close>, filling a pre-allocated \<^verbatim>\<open>ArrayBuffer\<close> through a
  view, and the one of \<^verbatim>\<open>src/unnamed/part_000\<close>, building a \<^verbatim>\<open>Uint8Array\<close> and returning
  its buffer) return the same bytes: those of the given buffers, one after the other in
  the order of the list.
\<close>

theorem concatenateAudioBuffers_agree:
  "concatenateAudioBuffers_aiService buffers = concatenateAudioBuffers buffers \<and>
   concatenateAudioBuffers buffers = Inr (concat buffers)"
  by (simp add: concatenateAudioBuffers_concat concatenateAudioBuffers_aiService_concat)

section \<open>Properties: the string operations\<close>

lemma trim_Nil [simp]: "trim [] = []"
  by (simp add: trim_def)

lemma includes_js_prefix: "prefix m s \<Longrightarrow> includes_js s m"
  by (cases s) auto

lemma includes_js_append: "includes_js (a @ m @ b) m"
  by (induction a) (auto simp: includes_js_prefix)

section \<open>Properties: the loop of the synthesizer\<close>

lemma synthLoop_sendAll:
  "synthLoop env ls i segs w =
     (case sendAll env (ttsRequests w) (map requestFor (spoken (drop i ls))) of
        (Inl e, log') \<Rightarrow> (Inl e, w\<lparr>ttsRequests := log'\<rparr>)
      | (Inr bs, log') \<Rightarrow> (Inr (segs @ bs), w\<lparr>ttsRequests := log'\<rparr>))"
proof (induction env ls i segs w rule: synthLoop.induct)
  case (1 env ls i segs w)
  show ?case
  proof (cases "i < length ls")
    case False
    then show ?thesis
      by (subst synthLoop.simps) (simp add: spoken_def)
  next
    case True
    then have d: "drop i ls = ls ! i # drop (Suc i) ls"
      by (simp add: Cons_nth_drop_Suc)
    show ?thesis
    proof (cases "trim (text' (ls ! i)) = []")
      case blank: True
      then have "synthLoop env ls i segs w = synthLoop env ls (i + 1) segs w"
        using True by (subst synthLoop.simps) (simp add: Let_def)
      also have "\<dots> = (case sendAll env (ttsRequests w) (map requestFor (spoken (drop (i + 1) ls))) of
        (Inl e, log') \<Rightarrow> (Inl e, w\<lparr>ttsRequests := log'\<rparr>)
      | (Inr bs, log') \<Rightarrow> (Inr (segs @ bs), w\<lparr>ttsRequests := log'\<rparr>))"
        using True blank by (intro "1.IH"(1)) auto
      finally show ?thesis
        using blank by (simp add: d spoken_def)
    next
      case spoken: False
      then have nb: "\<not> (text' (ls ! i) = [] \<or> trim (text' (ls ! i)) = [])"
        by auto
      let ?r = "requestFor (ls ! i)"
      have seg: "generateAudioSegment env (text' (ls ! i)) (voiceId (ls ! i)) w =
                 (elevenLabs env (ttsRequests w) ?r, w\<lparr>ttsRequests := ttsRequests w @ [?r]\<rparr>)"
        by (simp add: generateAudioSegment_def requestFor_def Let_def)
      show ?thesis
      proof (cases "elevenLabs env (ttsRequests w) ?r")
        case (Inl e)
        then show ?thesis
          using True nb seg spoken
          by (subst synthLoop.simps) (simp add: Let_def d spoken_def)
      next
        case (Inr b)
        let ?w = "w\<lparr>ttsRequests := ttsRequests w @ [?r]\<rparr>"
        have "synthLoop env ls i segs w = synthLoop env ls (i + 1) (segs @ [b]) ?w"
          using True nb seg Inr by (subst synthLoop.simps) (simp add: Let_def)
        also have "\<dots> = (case sendAll env (ttsRequests ?w) (map requestFor (spoken (drop (i + 1) ls))) of
            (Inl e, log') \<Rightarrow> (Inl e, ?w\<lparr>ttsRequests := log'\<rparr>)
          | (Inr bs, log') \<Rightarrow> (Inr ((segs @ [b]) @ bs), ?w\<lparr>ttsRequests := log'\<rparr>))"
          using True nb seg Inr by (intro "1.IH"(2)[where x = "ls ! i"]) auto
        finally show ?thesis
          using spoken Inr by (simp add: d spoken_def split: prod.splits sum.splits)
      qed
    qed
  qed
qed

lemma sendAll_answered:
  assumes "length bufs = length rs"
    and "\<forall>k<length rs. elevenLabs env (log @ take k rs) (rs ! k) = Inr (bufs ! k)"
  shows "sendAll env log rs = (Inr bufs, log @ rs)"
  using assms
proof (induction rs arbitrary: log bufs)
  case Nil
  then show ?case by simp
next
  case (Cons r rs)
  then obtain b bs where bufs: "bufs = b # bs"
    by (cases bufs) auto
  have first: "elevenLabs env log r = Inr b"
    using Cons.prems(2)[rule_format, of 0] bufs by simp
  have "\<forall>k<length rs. elevenLabs env ((log @ [r]) @ take k rs) (rs ! k) = Inr (bs ! k)"
  proof (intro allI impI)
    fix k assume "k < length rs"
    then show "elevenLabs env ((log @ [r]) @ take k rs) (rs ! k) = Inr (bs ! k)"
      using Cons.prems(2)[rule_format, of "Suc k"] bufs by simp
  qed
  then have "sendAll env (log @ [r]) rs = (Inr bs, (log @ [r]) @ rs)"
    using Cons.prems(1) bufs by (intro Cons.IH) simp_all
  then show ?case
    using first bufs by simp
qed

lemma sendAll_fails:
  assumes "k < length rs"
    and "\<forall>j<k. \<exists>b. elevenLabs env (log @ take j rs) (rs ! j) = Inr b"
    and "elevenLabs env (log @ take k rs) (rs ! k) = Inl e"
  shows "sendAll env log rs = (Inl e, log @ take (Suc k) rs)"
  using assms
proof (induction rs arbitrary: log k)
  case Nil
  then show ?case by simp
next
  case (Cons r rs)
  show ?case
  proof (cases k)
    case 0
    then show ?thesis
      using Cons.prems(3) by simp
  next
    case (Suc k')
    obtain b where first: "elevenLabs env log r = Inr b"
      using Cons.prems(2)[rule_format, of 0] Suc by auto
    have "\<forall>j<k'. \<exists>b. elevenLabs env ((log @ [r]) @ take j rs) (rs ! j) = Inr b"
    proof (intro allI impI)
      fix j assume "j < k'"
      then show "\<exists>b. elevenLabs env ((log @ [r]) @ take j rs) (rs ! j) = Inr b"
        using Cons.prems(2)[rule_format, of "Suc j"] Suc by simp
    qed
    moreover have "elevenLabs env ((log @ [r]) @ take k' rs) (rs ! k') = Inl e"
      using Cons.prems(3) Suc by simp
    moreover have "k' < length rs"
      using Cons.prems(1) Suc by simp
    ultimately have "sendAll env (log @ [r]) rs = (Inl e, (log @ [r]) @ take (Suc k') rs)"
      by (intro Cons.IH)
    then show ?thesis
      using first Suc by simp
  qed
qed

lemma spoken_all:
  "list_all (\<lambda>line. trim (text' line) \<noteq> []) ls \<Longrightarrow> spoken ls = ls"
  by (simp add: spoken_def list_all_iff)

lemma spoken_none:
  "list_all (\<lambda>line. trim (text' line) = []) ls \<Longrightarrow> spoken ls = []"
  by (induction ls) (simp_all add: spoken_def)

lemma synthesis_answered:
  assumes key: "\<not> missing (ELEVENLABS_API_KEY env)"
    and n: "length bufs = length (spoken ls)"
    and ok: "\<forall>k<length (spoken ls).
               elevenLabs env (ttsRequests w @ map requestFor (take k (spoken ls)))
                 (requestFor (spoken ls ! k)) = Inr (bufs ! k)"
    and some: "spoken ls \<noteq> []"
  shows "generateAudioWithElevenLabs env ls w =
           (\<lparr>url = createObjectURL env (blobs w) (concat bufs),
             statusMessage = js ''Audio successfully generated with '' @
                             decimal (length bufs) @
                             js '' segments using multiple voices.''\<rparr>,
            w\<lparr>ttsRequests := ttsRequests w @ map requestFor (spoken ls),
              blobs := blobs w @ [concat bufs]\<rparr>)"
proof -
  let ?rs = "map requestFor (spoken ls)"
  have "\<forall>k<length ?rs. elevenLabs env (ttsRequests w @ take k ?rs) (?rs ! k) = Inr (bufs ! k)"
    using ok by (simp add: take_map)
  then have "sendAll env (ttsRequests w) ?rs = (Inr bufs, ttsRequests w @ ?rs)"
    using n by (intro sendAll_answered) simp_all
  then have loop: "synthLoop env ls 0 [] w = (Inr bufs, w\<lparr>ttsRequests := ttsRequests w @ ?rs\<rparr>)"
    by (simp add: synthLoop_sendAll)
  have "ls \<noteq> []" "bufs \<noteq> []"
    using some n by (auto simp: spoken_def)
  then show ?thesis
    using key loop by (simp add: generateAudioWithElevenLabs_def concatenateAudioBuffers_concat Let_def)
qed

lemma synthesis_aborted:
  assumes key: "\<not> missing (ELEVENLABS_API_KEY env)"
    and k: "k < length (spoken ls)"
    and before: "\<forall>j<k. \<exists>b. elevenLabs env (ttsRequests w @ map requestFor (take j (spoken ls)))
                           (requestFor (spoken ls ! j)) = Inr b"
    and fails: "elevenLabs env (ttsRequests w @ map requestFor (take k (spoken ls)))
                  (requestFor (spoken ls ! k)) = Inl e"
  shows "generateAudioWithElevenLabs env ls w =
           (synthesisFailed e,
            w\<lparr>ttsRequests := ttsRequests w @ map requestFor (take (Suc k) (spoken ls))\<rparr>)"
proof -
  let ?rs = "map requestFor (spoken ls)"
  have "\<forall>j<k. \<exists>b. elevenLabs env (ttsRequests w @ take j ?rs) (?rs ! j) = Inr b"
    using before k by (simp add: take_map)
  moreover have "elevenLabs env (ttsRequests w @ take k ?rs) (?rs ! k) = Inl e"
    using fails k by (simp add: take_map)
  ultimately have "sendAll env (ttsRequests w) ?rs = (Inl e, ttsRequests w @ take (Suc k) ?rs)"
    using k by (intro sendAll_fails) simp_all
  then have loop: "synthLoop env ls 0 [] w =
                   (Inl e, w\<lparr>ttsRequests := ttsRequests w @ take (Suc k) ?rs\<rparr>)"
    by (simp add: synthLoop_sendAll)
  have "ls \<noteq> []"
    using k by (auto simp: spoken_def)
  then show ?thesis
    using key loop by (simp add: generateAudioWithElevenLabs_def take_map)
qed

lemma synthesis_nothing_spoken:
  assumes key: "\<not> missing (ELEVENLABS_API_KEY env)"
    and "ls \<noteq> []"
    and "spoken ls = []"
  shows "generateAudioWithElevenLabs env ls w =
           (\<lparr>url = [],
             statusMessage =
               js ''No audio generated as all script lines were empty or resulted in no audio.''\<rparr>,
            w)"
proof -
  have "synthLoop env ls 0 [] w = (Inr [], w)"
    using assms(3) by (simp add: synthLoop_sendAll)
  then show ?thesis
    using assms by (simp add: generateAudioWithElevenLabs_def)
qed

section \<open>Properties: the synthesizer\<close>

lemma example_key: "\<not> missing (ELEVENLABS_API_KEY exampleEnv)"
  by (simp add: exampleEnv_def missing_def js_def)

lemma example_texts:
  "trim (text' lineHi) \<noteq> []" "trim (text' lineYo) \<noteq> []" "trim (text' lineBoom) \<noteq> []"
  "trim (text' lineBlank) = []"
  by (simp_all add: lineHi_def lineYo_def lineBoom_def lineBlank_def js_def trim_def
      isWhiteSpace_def isLineTerminator_def)

lemma example_answers:
  "elevenLabs exampleEnv log (requestFor lineHi) = Inr [0x48, 0x69]"
  "elevenLabs exampleEnv log (requestFor lineYo) = Inr [0x59, 0x6F]"
  "elevenLabs exampleEnv log (requestFor lineBoom) = Inl (Error (js ''ElevenLabs API error: 500 - down''))"
  by (simp_all add: exampleEnv_def requestFor_def lineHi_def lineYo_def lineBoom_def js_def)

text \<open>
  C1, as amended: for a list of N script lines whose texts are all non-empty after
  trimming, with the synthesis credential present and every request answered with a
  buffer, the synthesizer sends exactly N requests, one per line in the order of the list.
  For N > 0 it creates one blob, the per-line buffers one after the other in line order,
  so its length is the sum of their lengths, and returns the URL of that blob. For N = 0
  it builds no buffer: no blob is created and the result has the empty URL.
\<close>

theorem synthesis_of_nonempty_lines:
  assumes "\<not> missing (ELEVENLABS_API_KEY env)"
    and "list_all (\<lambda>line. trim (text' line) \<noteq> []) ls"
    and "length bufs = length ls"
    and "\<forall>k<length ls.
           elevenLabs env (ttsRequests w @ map requestFor (take k ls)) (requestFor (ls ! k))
             = Inr (bufs ! k)"
  shows "case generateAudioWithElevenLabs env ls w of
           (details, w') \<Rightarrow>
             ttsRequests w' = ttsRequests w @ map requestFor ls \<and>
             length (ttsRequests w') = length (ttsRequests w) + length ls \<and>
             (ls \<noteq> [] \<longrightarrow>
                blobs w' = blobs w @ [concat bufs] \<and>
                url details = createObjectURL env (blobs w) (concat bufs) \<and>
                length (concat bufs) = sum_list (map length bufs) \<and>
                statusMessage details =
                  js ''Audio successfully generated with '' @ decimal (length ls) @
                  js '' segments using multiple voices.'') \<and>
             (ls = [] \<longrightarrow>
                blobs w' = blobs w \<and>
                details =
                  \<lparr>url = [], statusMessage = js ''No script lines to generate audio from.''\<rparr>)"
proof (cases "ls = []")
  case True
  then show ?thesis
    using assms(1) by (simp add: generateAudioWithElevenLabs_def)
next
  case False
  have sp: "spoken ls = ls"
    using assms(2) by (rule spoken_all)
  have "generateAudioWithElevenLabs env ls w =
           (\<lparr>url = createObjectURL env (blobs w) (concat bufs),
             statusMessage = js ''Audio successfully generated with '' @
                             decimal (length bufs) @
                             js '' segments using multiple voices.''\<rparr>,
            w\<lparr>ttsRequests := ttsRequests w @ map requestFor (spoken ls),
              blobs := blobs w @ [concat bufs]\<rparr>)"
    using assms False by (intro synthesis_answered) (simp_all add: sp)
  then show ?thesis
    using False assms(3) by (simp add: sp length_concat)
qed

theorem synthesis_of_nonempty_lines_witness:
  "\<not> missing (ELEVENLABS_API_KEY exampleEnv) \<and>
   list_all (\<lambda>line. trim (text' line) \<noteq> []) [lineHi, lineYo] \<and>
   ttsRequests (snd (generateAudioWithElevenLabs exampleEnv [lineHi, lineYo] emptyWorld))
     = [requestFor lineHi, requestFor lineYo] \<and>
   blobs (snd (generateAudioWithElevenLabs exampleEnv [lineHi, lineYo] emptyWorld))
     = [[0x48, 0x69, 0x59, 0x6F]] \<and>
   ttsRequests (snd (generateAudioWithElevenLabs exampleEnv [] emptyWorld)) = [] \<and>
   blobs (snd (generateAudioWithElevenLabs exampleEnv [] emptyWorld)) = [] \<and>
   fst (generateAudioWithElevenLabs exampleEnv [] emptyWorld) =
     \<lparr>url = [], statusMessage = js ''No script lines to generate audio from.''\<rparr>"
proof -
  have nonempty: "list_all (\<lambda>line. trim (text' line) \<noteq> []) [lineHi, lineYo]"
    by (simp add: example_texts)
  have answered: "\<forall>k<length [lineHi, lineYo].
      elevenLabs exampleEnv (ttsRequests emptyWorld @ map requestFor (take k [lineHi, lineYo]))
        (requestFor ([lineHi, lineYo] ! k)) = Inr ([[0x48, 0x69], [0x59, 0x6F]] ! k)"
    by (simp add: example_answers less_Suc_eq)
  have none: "list_all (\<lambda>line. trim (text' line) \<noteq> []) []"
    by simp
  have nothing: "\<forall>k<length ([] :: ScriptLine list).
      elevenLabs exampleEnv (ttsRequests emptyWorld @ map requestFor (take k []))
        (requestFor ([] ! k)) = Inr ([] ! k)"
    by simp
  show ?thesis
    using synthesis_of_nonempty_lines [OF example_key nonempty _ answered]
      synthesis_of_nonempty_lines
        [where ls = "[]" and bufs = "[]" and w = emptyWorld, OF example_key none _ nothing]
      nonempty example_key
    by (simp add: emptyWorld_def split: prod.splits)
qed

text \<open>
  C1 as stated fails in two ways. When a request fails: of two non-empty lines the first
  of which the service rejects, only one request is sent and no buffer is built. When the
  list is empty (N = 0, all of its lines non-empty) and the credential is present: there
  is no result buffer at all, the synthesizer returns the empty URL and creates no blob.
\<close>

theorem synthesis_of_nonempty_lines_counterexample:
  "\<not> missing (ELEVENLABS_API_KEY exampleEnv) \<and>
   list_all (\<lambda>line. trim (text' line) \<noteq> []) [lineBoom, lineYo] \<and>
   length [lineBoom, lineYo] = 2 \<and>
   length (ttsRequests (snd (generateAudioWithElevenLabs exampleEnv [lineBoom, lineYo] emptyWorld))) = 1 \<and>
   blobs (snd (generateAudioWithElevenLabs exampleEnv [lineBoom, lineYo] emptyWorld)) = [] \<and>
   list_all (\<lambda>line. trim (text' line) \<noteq> []) [] \<and>
   blobs (snd (generateAudioWithElevenLabs exampleEnv [] emptyWorld)) = [] \<and>
   url (fst (generateAudioWithElevenLabs exampleEnv [] emptyWorld)) = []"
proof -
  have sp: "spoken [lineBoom, lineYo] = [lineBoom, lineYo]"
    by (simp add: spoken_def example_texts)
  have "generateAudioWithElevenLabs exampleEnv [lineBoom, lineYo] emptyWorld =
      (synthesisFailed (Error (js ''ElevenLabs API error: 500 - down'')),
       emptyWorld\<lparr>ttsRequests := ttsRequests emptyWorld @
          map requestFor (take (Suc 0) (spoken [lineBoom, lineYo]))\<rparr>)"
    by (rule synthesis_aborted) (simp_all add: example_key sp example_answers)
  moreover have "generateAudioWithElevenLabs exampleEnv [] emptyWorld =
      (\<lparr>url = [], statusMessage = js ''No script lines to generate audio from.''\<rparr>, emptyWorld)"
    using example_key by (simp add: generateAudioWithElevenLabs_def)
  ultimately show ?thesis
    by (simp add: sp example_key example_texts emptyWorld_def)
qed

text \<open>
  C3, as amended: with the synthesis credential present and every request answered with a
  buffer, the synthesizer sends a request for exactly the lines whose text is non-empty
  after trimming, in order, and skips the rest; and for a non-empty list all of whose
  texts are empty or white space it returns the empty URL (not the placeholder) with the
  no-audio status, and sends nothing.
\<close>

theorem synthesis_skips_blank_lines:
  assumes "\<not> missing (ELEVENLABS_API_KEY env)"
  shows "(length bufs = length (spoken ls) \<and>
          (\<forall>k<length (spoken ls).
             elevenLabs env (ttsRequests w @ map requestFor (take k (spoken ls)))
               (requestFor (spoken ls ! k)) = Inr (bufs ! k)) \<longrightarrow>
            ttsRequests (snd (generateAudioWithElevenLabs env ls w))
              = ttsRequests w @ map requestFor (filter (\<lambda>line. trim (text' line) \<noteq> []) ls)) \<and>
         (ls \<noteq> [] \<and> list_all (\<lambda>line. trim (text' line) = []) ls \<longrightarrow>
            generateAudioWithElevenLabs env ls w =
              (\<lparr>url = [],
                statusMessage =
                  js ''No audio generated as all script lines were empty or resulted in no audio.''\<rparr>,
               w) \<and>
            url (fst (generateAudioWithElevenLabs env ls w)) \<noteq> PLACEHOLDER_AUDIO_URL)"
proof (intro conjI impI)
  assume a: "length bufs = length (spoken ls) \<and>
          (\<forall>k<length (spoken ls).
             elevenLabs env (ttsRequests w @ map requestFor (take k (spoken ls)))
               (requestFor (spoken ls ! k)) = Inr (bufs ! k))"
  show "ttsRequests (snd (generateAudioWithElevenLabs env ls w))
          = ttsRequests w @ map requestFor (filter (\<lambda>line. trim (text' line) \<noteq> []) ls)"
  proof (cases "spoken ls = []")
    case True
    show ?thesis
    proof (cases "ls = []")
      case True
      then show ?thesis
        using assms by (simp add: generateAudioWithElevenLabs_def)
    next
      case False
      then show ?thesis
        using synthesis_nothing_spoken [OF assms False True, of w] True
        by (simp add: spoken_def)
    qed
  next
    case False
    then show ?thesis
      using synthesis_answered [OF assms, of bufs ls w] a by (simp add: spoken_def)
  qed
next
  assume b: "ls \<noteq> [] \<and> list_all (\<lambda>line. trim (text' line) = []) ls"
  then have "spoken ls = []"
    by (simp add: spoken_none)
  then show r: "generateAudioWithElevenLabs env ls w =
              (\<lparr>url = [],
                statusMessage =
                  js ''No audio generated as all script lines were empty or resulted in no audio.''\<rparr>,
               w)"
    using assms b by (intro synthesis_nothing_spoken) simp_all
  show "url (fst (generateAudioWithElevenLabs env ls w)) \<noteq> PLACEHOLDER_AUDIO_URL"
    by (simp add: r PLACEHOLDER_AUDIO_URL_def js_def)
qed

theorem synthesis_skips_blank_lines_witness:
  "\<not> missing (ELEVENLABS_API_KEY exampleEnv) \<and>
   ttsRequests (snd (generateAudioWithElevenLabs exampleEnv [lineHi, lineBlank, lineYo] emptyWorld))
     = [requestFor lineHi, requestFor lineYo] \<and>
   list_all (\<lambda>line. trim (text' line) = []) [lineBlank, lineBlank] \<and>
   generateAudioWithElevenLabs exampleEnv [lineBlank, lineBlank] emptyWorld =
     (\<lparr>url = [],
       statusMessage =
         js ''No audio generated as all script lines were empty or resulted in no audio.''\<rparr>,
      emptyWorld)"
proof -
  have sp: "spoken [lineHi, lineBlank, lineYo] = [lineHi, lineYo]"
    by (simp add: spoken_def example_texts)
  have answered: "length [[0x48, 0x69], [0x59, 0x6F :: byte]] = length (spoken [lineHi, lineBlank, lineYo]) \<and>
    (\<forall>k<length (spoken [lineHi, lineBlank, lineYo]).
      elevenLabs exampleEnv
        (ttsRequests emptyWorld @ map requestFor (take k (spoken [lineHi, lineBlank, lineYo])))
        (requestFor (spoken [lineHi, lineBlank, lineYo] ! k)) = Inr ([[0x48, 0x69], [0x59, 0x6F]] ! k))"
    by (simp add: sp example_answers less_Suc_eq)
  have blank: "[lineBlank, lineBlank] \<noteq> [] \<and>
    list_all (\<lambda>line. trim (text' line) = []) [lineBlank, lineBlank]"
    by (simp add: example_texts)
  show ?thesis
    using synthesis_skips_blank_lines [OF example_key,
        of "[[0x48, 0x69], [0x59, 0x6F]]" "[lineHi, lineBlank, lineYo]" emptyWorld]
      synthesis_skips_blank_lines [OF example_key, of _ "[lineBlank, lineBlank]" emptyWorld]
      answered blank example_key
    by (simp add: example_texts emptyWorld_def)
qed

text \<open>
  C3 as stated fails when a request fails: the line after the failing one has a non-empty
  text and gets no request.
\<close>

theorem synthesis_skips_blank_lines_counterexample:
  "\<not> missing (ELEVENLABS_API_KEY exampleEnv) \<and>
   filter (\<lambda>line. trim (text' line) \<noteq> []) [lineBoom, lineBlank, lineYo] = [lineBoom, lineYo] \<and>
   ttsRequests (snd (generateAudioWithElevenLabs exampleEnv [lineBoom, lineBlank, lineYo] emptyWorld))
     = [requestFor lineBoom] \<and>
   requestFor lineYo \<noteq> requestFor lineBoom"
proof -
  have sp: "spoken [lineBoom, lineBlank, lineYo] = [lineBoom, lineYo]"
    by (simp add: spoken_def example_texts)
  have "generateAudioWithElevenLabs exampleEnv [lineBoom, lineBlank, lineYo] emptyWorld =
      (synthesisFailed (Error (js ''ElevenLabs API error: 500 - down'')),
       emptyWorld\<lparr>ttsRequests := ttsRequests emptyWorld @
          map requestFor (take (Suc 0) (spoken [lineBoom, lineBlank, lineYo]))\<rparr>)"
    by (rule synthesis_aborted) (simp_all add: example_key sp example_answers)
  then have r: "ttsRequests (snd (generateAudioWithElevenLabs exampleEnv
                      [lineBoom, lineBlank, lineYo] emptyWorld)) = [requestFor lineBoom]"
    by (simp add: sp emptyWorld_def)
  have ne: "requestFor lineYo \<noteq> requestFor lineBoom"
    by (simp add: requestFor_def lineYo_def lineBoom_def js_def)
  have f: "filter (\<lambda>line. trim (text' line) \<noteq> []) [lineBoom, lineBlank, lineYo] = [lineBoom, lineYo]"
    using sp unfolding spoken_def .
  show ?thesis
    using example_key r ne f by (intro conjI)
qed

text \<open>
  C4: without the synthesis credential, both versions of the synthesizer return the
  placeholder URL with a status containing \<^verbatim>\<open>simulated (API key missing)\<close>, for every list
  of lines (the empty one too), and send nothing: the world is unchanged.
\<close>

theorem synthesis_without_credential:
  assumes "missing (ELEVENLABS_API_KEY env)"
  shows "generateAudioWithElevenLabs env ls w =
           (\<lparr>url = PLACEHOLDER_AUDIO_URL,
             statusMessage =
               js ''Audio generation simulated (API key missing). Placeholder audio provided.''\<rparr>,
            w) \<and>
         generateAudioWithElevenLabs_aiService env ls w =
           (\<lparr>url = PLACEHOLDER_AUDIO_URL,
             statusMessage =
               js ''Audio generation simulated (API key missing). Placeholder audio provided.''\<rparr>,
            w) \<and>
         includes_js (statusMessage (fst (generateAudioWithElevenLabs env ls w)))
           (js ''simulated (API key missing)'') \<and>
         includes_js (statusMessage (fst (generateAudioWithElevenLabs_aiService env ls w)))
           (js ''simulated (API key missing)'')"
proof -
  have "includes_js (js ''Audio generation '' @ js ''simulated (API key missing)'' @
                     js ''. Placeholder audio provided.'') (js ''simulated (API key missing)'')"
    by (rule includes_js_append)
  moreover have "js ''Audio generation '' @ js ''simulated (API key missing)'' @
                     js ''. Placeholder audio provided.'' =
                 js ''Audio generation simulated (API key missing). Placeholder audio provided.''"
    by (simp add: js_def)
  ultimately show ?thesis
    using assms
    by (simp add: generateAudioWithElevenLabs_def generateAudioWithElevenLabs_aiService_def)
qed

theorem synthesis_without_credential_witness:
  "missing (ELEVENLABS_API_KEY (exampleEnv\<lparr>ELEVENLABS_API_KEY := None\<rparr>)) \<and>
   generateAudioWithElevenLabs (exampleEnv\<lparr>ELEVENLABS_API_KEY := None\<rparr>) [lineHi, lineYo] emptyWorld =
     (\<lparr>url = PLACEHOLDER_AUDIO_URL,
       statusMessage =
         js ''Audio generation simulated (API key missing). Placeholder audio provided.''\<rparr>,
      emptyWorld) \<and>
   generateAudioWithElevenLabs_aiService (exampleEnv\<lparr>ELEVENLABS_API_KEY := None\<rparr>) [] emptyWorld =
     (\<lparr>url = PLACEHOLDER_AUDIO_URL,
       statusMessage =
         js ''Audio generation simulated (API key missing). Placeholder audio provided.''\<rparr>,
      emptyWorld) \<and>
   ttsRequests (snd (generateAudioWithElevenLabs (exampleEnv\<lparr>ELEVENLABS_API_KEY := None\<rparr>)
                       [lineHi, lineYo] emptyWorld)) = []"
proof -
  have h: "missing (ELEVENLABS_API_KEY (exampleEnv\<lparr>ELEVENLABS_API_KEY := None\<rparr>))"
    by (simp add: missing_def)
  show ?thesis
    using h synthesis_without_credential [OF h, of "[lineHi, lineYo]" emptyWorld]
      synthesis_without_credential [OF h, of "[]" emptyWorld]
    by (simp add: emptyWorld_def)
qed

text \<open>
  C5: when the request for the \<^verbatim>\<open>k\<close>-th line with text is the first to fail, the requests
  sent are those up to and including it and none after; the result is the placeholder
  URL with the status that reports the thrown error (its message, when it is an \<^verbatim>\<open>Error\<close>);
  no blob is created, so none of the buffers fetched before reaches the result.
\<close>

theorem synthesis_aborts_on_failure:
  assumes "\<not> missing (ELEVENLABS_API_KEY env)"
    and "k < length (spoken ls)"
    and "\<forall>j<k. \<exists>b. elevenLabs env (ttsRequests w @ map requestFor (take j (spoken ls)))
                      (requestFor (spoken ls ! j)) = Inr b"
    and "elevenLabs env (ttsRequests w @ map requestFor (take k (spoken ls)))
           (requestFor (spoken ls ! k)) = Inl e"
  shows "case generateAudioWithElevenLabs env ls w of
           (details, w') \<Rightarrow>
             ttsRequests w' = ttsRequests w @ map requestFor (take (Suc k) (spoken ls)) \<and>
             url details = PLACEHOLDER_AUDIO_URL \<and>
             statusMessage details =
               js ''Multi-voice audio generation failed: '' @
               (case e of Error m \<Rightarrow> m | NonError \<Rightarrow> js ''Unknown error'') @
               js ''. Placeholder audio provided.'' \<and>
             (\<forall>m. e = Error m \<longrightarrow> includes_js (statusMessage details) m) \<and>
             blobs w' = blobs w"
proof -
  have "generateAudioWithElevenLabs env ls w =
           (synthesisFailed e,
            w\<lparr>ttsRequests := ttsRequests w @ map requestFor (take (Suc k) (spoken ls))\<rparr>)"
    using assms by (rule synthesis_aborted)
  then show ?thesis
    by (simp add: synthesisFailed_def messageOr_def includes_js_append)
qed

theorem synthesis_aborts_on_failure_witness:
  "\<not> missing (ELEVENLABS_API_KEY exampleEnv) \<and>
   spoken [lineHi, lineBlank, lineBoom, lineYo] = [lineHi, lineBoom, lineYo] \<and>
   elevenLabs exampleEnv [requestFor lineHi] (requestFor lineBoom)
     = Inl (Error (js ''ElevenLabs API error: 500 - down'')) \<and>
   ttsRequests (snd (generateAudioWithElevenLabs exampleEnv
                       [lineHi, lineBlank, lineBoom, lineYo] emptyWorld))
     = [requestFor lineHi, requestFor lineBoom] \<and>
   fst (generateAudioWithElevenLabs exampleEnv [lineHi, lineBlank, lineBoom, lineYo] emptyWorld) =
     \<lparr>url = PLACEHOLDER_AUDIO_URL,
      statusMessage =
        js ''Multi-voice audio generation failed: ElevenLabs API error: 500 - down. Placeholder audio provided.''\<rparr> \<and>
   blobs (snd (generateAudioWithElevenLabs exampleEnv
                 [lineHi, lineBlank, lineBoom, lineYo] emptyWorld)) = []"
proof -
  have sp: "spoken [lineHi, lineBlank, lineBoom, lineYo] = [lineHi, lineBoom, lineYo]"
    by (simp add: spoken_def example_texts)
  have k: "Suc 0 < length (spoken [lineHi, lineBlank, lineBoom, lineYo])"
    by (simp add: sp)
  have before: "\<forall>j<Suc 0. \<exists>b. elevenLabs exampleEnv
        (ttsRequests emptyWorld @ map requestFor (take j (spoken [lineHi, lineBlank, lineBoom, lineYo])))
        (requestFor (spoken [lineHi, lineBlank, lineBoom, lineYo] ! j)) = Inr b"
    by (simp add: sp example_answers)
  have fails: "elevenLabs exampleEnv
        (ttsRequests emptyWorld @ map requestFor (take (Suc 0) (spoken [lineHi, lineBlank, lineBoom, lineYo])))
        (requestFor (spoken [lineHi, lineBlank, lineBoom, lineYo] ! Suc 0))
      = Inl (Error (js ''ElevenLabs API error: 500 - down''))"
    by (simp add: sp example_answers)
  show ?thesis
    using synthesis_aborts_on_failure [OF example_key k before fails] example_key
    by (simp add: sp example_answers emptyWorld_def js_def split: prod.splits)
qed

section \<open>Properties: the voices of the requests\<close>

lemma sendAll_prefix:
  "\<exists>n. snd (sendAll env log rs) = log @ take n rs"
proof (induction rs arbitrary: log)
  case Nil
  then show ?case by simp
next
  case (Cons r rs)
  show ?case
  proof (cases "elevenLabs env log r")
    case (Inl e)
    then have "snd (sendAll env log (r # rs)) = log @ take (Suc 0) (r # rs)"
      by simp
    then show ?thesis ..
  next
    case (Inr b)
    obtain n where "snd (sendAll env (log @ [r]) rs) = (log @ [r]) @ take n rs"
      using Cons.IH by blast
    then have "snd (sendAll env log (r # rs)) = log @ take (Suc n) (r # rs)"
      using Inr by (auto split: prod.splits sum.splits)
    then show ?thesis ..
  qed
qed

lemma synthesizer_sends_prefix:
  "\<exists>n. ttsRequests (snd (generateAudioWithElevenLabs env ls w)) =
         ttsRequests w @ map requestFor (take n (spoken ls))"
proof -
  obtain n where n: "snd (sendAll env (ttsRequests w) (map requestFor (spoken ls))) =
      ttsRequests w @ take n (map requestFor (spoken ls))"
    using sendAll_prefix by blast
  have loop: "ttsRequests (snd (synthLoop env ls 0 [] w)) =
      ttsRequests w @ map requestFor (take n (spoken ls))"
    using n by (auto simp add: synthLoop_sendAll take_map split: prod.splits sum.splits)
  have "ttsRequests (snd (generateAudioWithElevenLabs env ls w)) = ttsRequests w \<or>
        ttsRequests (snd (generateAudioWithElevenLabs env ls w)) =
          ttsRequests (snd (synthLoop env ls 0 [] w))"
    by (simp add: generateAudioWithElevenLabs_def Let_def split: prod.splits sum.splits)
  then show ?thesis
  proof
    assume "ttsRequests (snd (generateAudioWithElevenLabs env ls w)) = ttsRequests w"
    then have "ttsRequests (snd (generateAudioWithElevenLabs env ls w)) =
         ttsRequests w @ map requestFor (take 0 (spoken ls))"
      by simp
    then show ?thesis ..
  next
    assume "ttsRequests (snd (generateAudioWithElevenLabs env ls w)) =
          ttsRequests (snd (synthLoop env ls 0 [] w))"
    then show ?thesis
      using loop by auto
  qed
qed

lemma synthLoop_aiService_voices:
  "\<exists>n. map req_voiceId (ttsRequests (snd (synthLoop_aiService env ls i segs w))) =
         map req_voiceId (ttsRequests w) @ map voiceId (take n (drop i ls))"
proof (induction env ls i segs w rule: synthLoop_aiService.induct)
  case (1 env ls i segs w)
  show ?case
  proof (cases "i < length ls")
    case False
    then have "snd (synthLoop_aiService env ls i segs w) = w"
      by (subst synthLoop_aiService.simps) simp
    then have "map req_voiceId (ttsRequests (snd (synthLoop_aiService env ls i segs w))) =
         map req_voiceId (ttsRequests w) @ map voiceId (take 0 (drop i ls))"
      by simp
    then show ?thesis ..
  next
    case True
    then have d: "drop i ls = ls ! i # drop (Suc i) ls"
      by (simp add: Cons_nth_drop_Suc)
    let ?prev = "if i > 0 then Some (join (map text' (take i ls)) (js '' '')) else None"
    let ?next = "if i < length ls - 1 then Some (join (map text' (drop (i + 1) ls)) (js '' '')) else None"
    let ?r = "\<lparr>req_voiceId = voiceId (ls ! i), req_text = text' (ls ! i),
               previous_text = truthy ?prev, next_text = truthy ?next\<rparr>"
    let ?w = "w\<lparr>ttsRequests := ttsRequests w @ [?r]\<rparr>"
    have seg: "generateAudioSegment_aiService env (text' (ls ! i)) (voiceId (ls ! i)) ?prev ?next w =
               (elevenLabs env (ttsRequests w) ?r, ?w)"
      by (simp add: generateAudioSegment_aiService_def Let_def)
    show ?thesis
    proof (cases "elevenLabs env (ttsRequests w) ?r")
      case (Inl e)
      then have "snd (synthLoop_aiService env ls i segs w) = ?w"
        using True seg by (subst synthLoop_aiService.simps) (simp add: Let_def)
      then have "map req_voiceId (ttsRequests (snd (synthLoop_aiService env ls i segs w))) =
         map req_voiceId (ttsRequests w) @ map voiceId (take (Suc 0) (drop i ls))"
        by (simp add: d)
      then show ?thesis ..
    next
      case (Inr b)
      then have step: "synthLoop_aiService env ls i segs w =
                 synthLoop_aiService env ls (i + 1) (segs @ [b]) ?w"
        using True seg by (subst synthLoop_aiService.simps) (simp add: Let_def)
      have "\<exists>n. map req_voiceId (ttsRequests (snd (synthLoop_aiService env ls (i + 1) (segs @ [b]) ?w))) =
         map req_voiceId (ttsRequests ?w) @ map voiceId (take n (drop (i + 1) ls))"
        using True seg Inr by (intro "1.IH") auto
      then obtain n where
        "map req_voiceId (ttsRequests (snd (synthLoop_aiService env ls (i + 1) (segs @ [b]) ?w))) =
         map req_voiceId (ttsRequests ?w) @ map voiceId (take n (drop (i + 1) ls))"
        by blast
      then have "map req_voiceId (ttsRequests (snd (synthLoop_aiService env ls i segs w))) =
         map req_voiceId (ttsRequests w) @ map voiceId (take (Suc n) (drop i ls))"
        by (simp add: step d)
      then show ?thesis ..
    qed
  qed
qed


lemma synthesizer_aiService_voices:
  "\<exists>n. map req_voiceId (ttsRequests (snd (generateAudioWithElevenLabs_aiService env ls w))) =
         map req_voiceId (ttsRequests w) @ map voiceId (take n ls)"
proof -
  have "ttsRequests (snd (generateAudioWithElevenLabs_aiService env ls w)) = ttsRequests w \<or>
        ttsRequests (snd (generateAudioWithElevenLabs_aiService env ls w)) =
          ttsRequests (snd (synthLoop_aiService env ls 0 [] w))"
    by (simp add: generateAudioWithElevenLabs_aiService_def Let_def split: prod.splits sum.splits)
  then show ?thesis
  proof
    assume "ttsRequests (snd (generateAudioWithElevenLabs_aiService env ls w)) = ttsRequests w"
    then have "map req_voiceId (ttsRequests (snd (generateAudioWithElevenLabs_aiService env ls w))) =
         map req_voiceId (ttsRequests w) @ map voiceId (take 0 ls)"
      by simp
    then show ?thesis ..
  next
    assume "ttsRequests (snd (generateAudioWithElevenLabs_aiService env ls w)) =
          ttsRequests (snd (synthLoop_aiService env ls 0 [] w))"
    then show ?thesis
      using synthLoop_aiService_voices [of env ls 0 "[]" w] by simp
  qed
qed

lemma voices_differ: "VOICE_ID_PERSON_A \<noteq> VOICE_ID_PERSON_B"
  by (simp add: VOICE_ID_PERSON_A_def VOICE_ID_PERSON_B_def js_def)

text \<open>
  C7, as amended: for every script line the first voice is selected exactly when the
  lower-cased speaker label contains \<^verbatim>\<open>person a\<close> or contains \<^verbatim>\<open> a:\<close>, and the second voice
  in every other case; the requests either version of the synthesizer sends carry the
  voices so selected for the lines it processes, in order.
\<close>

theorem voiceId_selection:
  "(voiceId line = VOICE_ID_PERSON_A \<longleftrightarrow>
      includes_js (toLowerCase (speaker line)) (js ''person a'') \<or>
      includes_js (toLowerCase (speaker line)) (js '' a:'')) \<and>
   (voiceId line = VOICE_ID_PERSON_B \<longleftrightarrow>
      \<not> (includes_js (toLowerCase (speaker line)) (js ''person a'') \<or>
         includes_js (toLowerCase (speaker line)) (js '' a:''))) \<and>
   (\<exists>n. map req_voiceId (ttsRequests (snd (generateAudioWithElevenLabs env ls w))) =
         map req_voiceId (ttsRequests w) @ map voiceId (take n (spoken ls))) \<and>
   (\<exists>n. map req_voiceId (ttsRequests (snd (generateAudioWithElevenLabs_aiService env ls w))) =
         map req_voiceId (ttsRequests w) @ map voiceId (take n ls))"
proof (intro conjI)
  show "voiceId line = VOICE_ID_PERSON_A \<longleftrightarrow>
      includes_js (toLowerCase (speaker line)) (js ''person a'') \<or>
      includes_js (toLowerCase (speaker line)) (js '' a:'')"
    using voices_differ by (auto simp add: voiceId_def)
  show "voiceId line = VOICE_ID_PERSON_B \<longleftrightarrow>
      \<not> (includes_js (toLowerCase (speaker line)) (js ''person a'') \<or>
         includes_js (toLowerCase (speaker line)) (js '' a:''))"
    using voices_differ by (auto simp add: voiceId_def)
  obtain n where "ttsRequests (snd (generateAudioWithElevenLabs env ls w)) =
         ttsRequests w @ map requestFor (take n (spoken ls))"
    using synthesizer_sends_prefix by blast
  then have "map req_voiceId (ttsRequests (snd (generateAudioWithElevenLabs env ls w))) =
         map req_voiceId (ttsRequests w) @ map voiceId (take n (spoken ls))"
    by (simp add: requestFor_def comp_def)
  then show "\<exists>n. map req_voiceId (ttsRequests (snd (generateAudioWithElevenLabs env ls w))) =
         map req_voiceId (ttsRequests w) @ map voiceId (take n (spoken ls))" ..
  show "\<exists>n. map req_voiceId (ttsRequests (snd (generateAudioWithElevenLabs_aiService env ls w))) =
         map req_voiceId (ttsRequests w) @ map voiceId (take n ls)"
    by (rule synthesizer_aiService_voices)
qed

theorem voiceId_selection_witness:
  "voiceId lineHi = VOICE_ID_PERSON_A \<and> voiceId lineYo = VOICE_ID_PERSON_B \<and>
   voiceId \<lparr>speaker = js ''PERSON A'', text' = js ''Hi''\<rparr> = VOICE_ID_PERSON_A"
proof -
  have "includes_js (toLowerCase (speaker lineHi)) (js ''person a'')"
    by (simp add: lineHi_def js_def toLowerCase_def asciiLower_def)
  moreover have "\<not> (includes_js (toLowerCase (speaker lineYo)) (js ''person a'') \<or>
           includes_js (toLowerCase (speaker lineYo)) (js '' a:''))"
    by (simp add: lineYo_def js_def toLowerCase_def asciiLower_def)
  moreover have "includes_js (toLowerCase (speaker \<lparr>speaker = js ''PERSON A'', text' = js ''Hi''\<rparr>))
                   (js ''person a'')"
    by (simp add: js_def toLowerCase_def asciiLower_def)
  ultimately show ?thesis
    using voiceId_selection [of lineHi] voiceId_selection [of lineYo]
      voiceId_selection [of "\<lparr>speaker = js ''PERSON A'', text' = js ''Hi''\<rparr>"]
    by blast
qed

text \<open>
  C7 as stated fails on the second marker: the speaker label \<^verbatim>\<open>Host A:\<close> does not contain
  \<^verbatim>\<open>person a\<close>, whatever the case, and still gets the first voice.
\<close>

theorem voiceId_selection_counterexample:
  "voiceId \<lparr>speaker = js ''Host A:'', text' = js ''Hi''\<rparr> = VOICE_ID_PERSON_A \<and>
   \<not> includes_js (toLowerCase (speaker \<lparr>speaker = js ''Host A:'', text' = js ''Hi''\<rparr>))
        (js ''person a'')"
  by (simp add: voiceId_def js_def toLowerCase_def asciiLower_def)

section \<open>Properties: the script requester\<close>

text \<open>
  The message of the empty-response error does not contain \<^verbatim>\<open>API key not valid\<close>, so the
  \<^verbatim>\<open>catch\<close> block passes it on as it is.
\<close>

lemma key_not_valid_absent:
  "\<not> includes_js (js ''AI failed to generate a script. The response was empty.'')
       (js ''API key not valid'')"
  by (simp add: js_def)

text \<open>
  C8: for every topic, \<^verbatim>\<open>generateScript\<close> returns a text that is not empty after trimming, or
  throws an \<^verbatim>\<open>Error\<close>; it throws without sending anything when the generation credential is
  missing, and it throws when the response has no text or only white space.
\<close>

theorem generateScript_returns_text_or_throws:
  "(case generateScript env topic' w of
      (Inr scriptText, w') \<Rightarrow> trim scriptText \<noteq> []
    | (Inl e, w') \<Rightarrow> (\<exists>m. e = Error m)) \<and>
   (missing (GEMINI_API_KEY env) \<longrightarrow>
      generateScript env topic' w =
        (Inl (Error (js ''Gemini API Key is not configured. Cannot connect to AI services.'')), w)) \<and>
   (\<not> missing (GEMINI_API_KEY env) \<and>
    (gemini env (prompts w) (scriptPrompt topic') = Inr None \<or>
     (\<exists>t. gemini env (prompts w) (scriptPrompt topic') = Inr (Some t) \<and> trim t = [])) \<longrightarrow>
      fst (generateScript env topic' w) =
        Inl (Error (js ''AI failed to generate a script. The response was empty.'')))"
proof (intro conjI impI)
  show "case generateScript env topic' w of
      (Inr scriptText, w') \<Rightarrow> trim scriptText \<noteq> []
    | (Inl e, w') \<Rightarrow> (\<exists>m. e = Error m)"
    by (auto simp add: generateScript_def Let_def split: sum.splits option.splits if_splits)
  show "generateScript env topic' w =
        (Inl (Error (js ''Gemini API Key is not configured. Cannot connect to AI services.'')), w)"
    if "missing (GEMINI_API_KEY env)"
    using that by (simp add: generateScript_def)
  show "fst (generateScript env topic' w) =
        Inl (Error (js ''AI failed to generate a script. The response was empty.''))"
    if "\<not> missing (GEMINI_API_KEY env) \<and>
    (gemini env (prompts w) (scriptPrompt topic') = Inr None \<or>
     (\<exists>t. gemini env (prompts w) (scriptPrompt topic') = Inr (Some t) \<and> trim t = []))"
    using that key_not_valid_absent
    by (auto simp add: generateScript_def Let_def messageOr_def)
qed

theorem generateScript_returns_text_or_throws_witness:
  "generateScript exampleEnv (js ''gravity'') emptyWorld =
     (Inr (js ''Person A: Hi''), emptyWorld\<lparr>prompts := [scriptPrompt (js ''gravity'')]\<rparr>) \<and>
   trim (js ''Person A: Hi'') \<noteq> [] \<and>
   missing (GEMINI_API_KEY (exampleEnv\<lparr>GEMINI_API_KEY := None\<rparr>)) \<and>
   generateScript (exampleEnv\<lparr>GEMINI_API_KEY := None\<rparr>) (js ''gravity'') emptyWorld =
     (Inl (Error (js ''Gemini API Key is not configured. Cannot connect to AI services.'')),
      emptyWorld) \<and>
   fst (generateScript (exampleEnv\<lparr>gemini := \<lambda>log prompt. Inr (Some (js ''  ''))\<rparr>)
          (js ''gravity'') emptyWorld) =
     Inl (Error (js ''AI failed to generate a script. The response was empty.''))"
proof -
  have ok: "generateScript exampleEnv (js ''gravity'') emptyWorld =
     (Inr (js ''Person A: Hi''), emptyWorld\<lparr>prompts := [scriptPrompt (js ''gravity'')]\<rparr>)"
    by (simp add: generateScript_def exampleEnv_def missing_def emptyWorld_def Let_def js_def
        trim_def isWhiteSpace_def isLineTerminator_def)
  have nokey: "missing (GEMINI_API_KEY (exampleEnv\<lparr>GEMINI_API_KEY := None\<rparr>))"
    by (simp add: missing_def)
  have blank: "\<not> missing (GEMINI_API_KEY (exampleEnv\<lparr>gemini := \<lambda>log prompt. Inr (Some (js ''  ''))\<rparr>)) \<and>
    (gemini (exampleEnv\<lparr>gemini := \<lambda>log prompt. Inr (Some (js ''  ''))\<rparr>) (prompts emptyWorld)
        (scriptPrompt (js ''gravity'')) = Inr None \<or>
     (\<exists>t. gemini (exampleEnv\<lparr>gemini := \<lambda>log prompt. Inr (Some (js ''  ''))\<rparr>) (prompts emptyWorld)
        (scriptPrompt (js ''gravity'')) = Inr (Some t) \<and> trim t = []))"
    by (simp add: exampleEnv_def missing_def js_def trim_def isWhiteSpace_def)
  show ?thesis
    using generateScript_returns_text_or_throws [of exampleEnv "js ''gravity''" emptyWorld]
      generateScript_returns_text_or_throws
        [of "exampleEnv\<lparr>GEMINI_API_KEY := None\<rparr>" "js ''gravity''" emptyWorld]
      generateScript_returns_text_or_throws
        [of "exampleEnv\<lparr>gemini := \<lambda>log prompt. Inr (Some (js ''  ''))\<rparr>" "js ''gravity''" emptyWorld]
      ok nokey blank
    by simp
qed

section \<open>Properties: the script parser\<close>

lemma colon_not_alnum: "\<not> isAlnum 0x3A"
  by (simp add: isAlnum_def)

lemma takeWhile_run:
  "list_all P xs \<Longrightarrow> \<not> P y \<Longrightarrow> takeWhile P (xs @ y # ys) = xs"
  by (induction xs) auto

lemma dropWhile_run:
  "list_all P xs \<Longrightarrow> \<not> P y \<Longrightarrow> dropWhile P (xs @ y # ys) = y # ys"
  by (induction xs) auto

lemma dropWhile_stops:
  "ys = [] \<or> \<not> P (hd ys) \<Longrightarrow> dropWhile P ys = ys"
  by (cases ys) auto

lemma dropWhile_run_end:
  "list_all P xs \<Longrightarrow> ys = [] \<or> \<not> P (hd ys) \<Longrightarrow> dropWhile P (xs @ ys) = ys"
  by (induction xs) (simp_all add: dropWhile_stops)

text \<open>
  The matcher agrees with the pattern read as a description of the line: it succeeds with
  the captures \<^verbatim>\<open>m1\<close> and \<^verbatim>\<open>m2\<close> exactly when the line is \<^verbatim>\<open>Person \<close> in any case, a non-empty
  run of letters and digits, a colon, a run of white space and \<^verbatim>\<open>m2\<close>, where \<^verbatim>\<open>m1\<close> is the
  line up to the colon, \<^verbatim>\<open>m2\<close> has no line terminator, and the white space was taken
  greedily (\<^verbatim>\<open>m2\<close> does not start with white space).
\<close>

lemma speakerRegex_match_iff:
  "speakerRegex_match line = Some (m1, m2) \<longleftrightarrow>
     (\<exists>p label ws.
        line = p @ label @ [0x3A] @ ws @ m2 \<and> m1 = p @ label \<and>
        toLowerCase p = js ''person '' \<and>
        label \<noteq> [] \<and> list_all isAlnum label \<and>
        list_all isWhiteSpace ws \<and> (m2 = [] \<or> \<not> isWhiteSpace (hd m2)) \<and>
        \<not> list_ex isLineTerminator m2)"
  (is "?L \<longleftrightarrow> ?R")
proof
  assume ?L
  let ?p = "take 7 line"
  let ?label = "takeWhile isAlnum (drop 7 line)"
  let ?after = "dropWhile isAlnum (drop 7 line)"
  let ?ws = "takeWhile isWhiteSpace (drop 1 ?after)"
  from \<open>?L\<close> have p: "toLowerCase ?p = js ''person ''"
    and label: "?label \<noteq> []"
    and colon: "take 1 ?after = js '':''"
    and m2: "m2 = dropWhile isWhiteSpace (drop 1 ?after)"
    and lt: "\<not> list_ex isLineTerminator m2"
    and m1: "m1 = ?p @ ?label"
    by (auto simp add: speakerRegex_match_def Let_def split: if_splits)
  have after: "?after = [0x3A] @ drop 1 ?after"
    using colon by (cases ?after) (auto simp: js_def)
  have "line = ?p @ drop 7 line"
    by simp
  also have "drop 7 line = ?label @ ?after"
    by simp
  also have "?after = [0x3A] @ ?ws @ m2"
    using after m2 by (metis takeWhile_dropWhile_id)
  finally have "line = ?p @ ?label @ [0x3A] @ ?ws @ m2" .
  moreover have "list_all isAlnum ?label"
    by (simp add: list_all_iff) (meson set_takeWhileD)
  moreover have "list_all isWhiteSpace ?ws"
    by (simp add: list_all_iff) (meson set_takeWhileD)
  moreover have "m2 = [] \<or> \<not> isWhiteSpace (hd m2)"
    using m2 hd_dropWhile [of isWhiteSpace "drop 1 ?after"] by auto
  ultimately show ?R
    using p label lt m1 by blast
next
  assume ?R
  then obtain p label ws where line: "line = p @ label @ [0x3A] @ ws @ m2"
    and m1: "m1 = p @ label"
    and p: "toLowerCase p = js ''person ''"
    and label: "label \<noteq> []" "list_all isAlnum label"
    and ws: "list_all isWhiteSpace ws" "m2 = [] \<or> \<not> isWhiteSpace (hd m2)"
    and lt: "\<not> list_ex isLineTerminator m2"
    by blast
  have "length (toLowerCase p) = 7"
    by (simp add: p js_def)
  then have len: "length p = 7"
    by (simp add: toLowerCase_def)
  then have t: "take 7 line = p" and d: "drop 7 line = label @ 0x3A # ws @ m2"
    by (simp_all add: line)
  have tw: "takeWhile isAlnum (drop 7 line) = label"
    unfolding d using label(2) colon_not_alnum by (rule takeWhile_run)
  have dw: "dropWhile isAlnum (drop 7 line) = 0x3A # ws @ m2"
    unfolding d using label(2) colon_not_alnum by (rule dropWhile_run)
  have rest: "dropWhile isWhiteSpace (ws @ m2) = m2"
    using ws by (rule dropWhile_run_end)
  show ?L
    using p label(1) lt
    by (simp add: speakerRegex_match_def Let_def t tw dw rest m1) (simp add: js_def)
qed

lemma parseLoop_all_match:
  "list_all (\<lambda>line. speakerRegex_match line \<noteq> None) lines \<Longrightarrow>
   parseLoop lines parsedLines = parsedLines @ map parsedLine lines"
proof (induction lines arbitrary: parsedLines)
  case Nil
  then show ?case by simp
next
  case (Cons line lines)
  then obtain m1 m2 where m: "speakerRegex_match line = Some (m1, m2)"
    by auto
  have "parseLoop lines (parsedLines @ [\<lparr>speaker = m1, text' = trim m2\<rparr>]) =
        (parsedLines @ [\<lparr>speaker = m1, text' = trim m2\<rparr>]) @ map parsedLine lines"
    using Cons.prems by (intro Cons.IH) simp
  then show ?case
    using m by (simp add: parsedLine_def)
qed

lemma last_dropWhile:
  "dropWhile P xs \<noteq> [] \<Longrightarrow> last (dropWhile P xs) = last xs"
  by (induction xs) (auto split: if_splits)

lemma trim_trimmed:
  "trim s = [] \<or> (\<not> isWhiteSpace (hd (trim s)) \<and> \<not> isWhiteSpace (last (trim s)))"
proof (cases "trim s = []")
  case True
  then show ?thesis ..
next
  case False
  let ?d = "dropWhile isWhiteSpace s"
  let ?e = "dropWhile isWhiteSpace (rev ?d)"
  have e: "?e \<noteq> []"
    using False by (simp add: trim_def)
  have d: "?d \<noteq> []"
  proof
    assume "?d = []"
    then have "?e = []"
      by (simp only: rev.simps dropWhile.simps)
    with e show False ..
  qed
  have "last (trim s) = hd ?e"
    using e by (simp add: trim_def last_rev)
  then have l: "\<not> isWhiteSpace (last (trim s))"
    using e hd_dropWhile [of isWhiteSpace "rev ?d"] by simp
  have "hd (trim s) = last ?e"
    using e by (simp add: trim_def hd_rev)
  also have "\<dots> = last (rev ?d)"
    using e by (rule last_dropWhile)
  also have "\<dots> = hd ?d"
    using d by (simp add: last_rev)
  finally have "\<not> isWhiteSpace (hd (trim s))"
    using d hd_dropWhile [of isWhiteSpace s] by simp
  then show ?thesis
    using l by simp
qed

lemma split_js_no_separator:
  "sep \<notin> set x \<Longrightarrow> split_js x sep = [x]"
  by (induction x) auto

lemma split_js_append:
  "sep \<notin> set x \<Longrightarrow> split_js (x @ sep # rest) sep = x # split_js rest sep"
  by (induction x) auto

lemma split_js_pieces:
  "split_js s sep \<noteq> [] \<and> list_all (\<lambda>piece. sep \<notin> set piece) (split_js s sep)"
  by (induction s) (auto split: list.splits)

lemma split_js_join:
  "ls \<noteq> [] \<Longrightarrow> list_all (\<lambda>l. sep \<notin> set l) ls \<Longrightarrow> split_js (join ls [sep]) sep = ls"
proof (induction ls "[sep]" rule: join.induct)
  case 1
  then show ?case by simp
next
  case (2 x)
  then show ?case by (simp add: split_js_no_separator)
next
  case (3 x y ys)
  then show ?case by (simp add: split_js_append)
qed

lemma nonBlankLines_join:
  "nonBlankLines (join (nonBlankLines raw) [0x0A]) = nonBlankLines raw"
proof (cases "nonBlankLines raw = []")
  case True
  then show ?thesis
    by (simp add: nonBlankLines_def)
next
  case False
  have "list_all (\<lambda>l. 0x0A \<notin> set l) (split_js raw 0x0A)"
    using split_js_pieces [of raw "0x0A"] by simp
  then have "list_all (\<lambda>l. 0x0A \<notin> set l) (nonBlankLines raw)"
    by (simp add: nonBlankLines_def list_all_iff)
  then have "split_js (join (nonBlankLines raw) [0x0A]) 0x0A = nonBlankLines raw"
    using False by (intro split_js_join)
  then show ?thesis
    by (simp add: nonBlankLines_def)
qed

text \<open>
  C2: when every non-blank line of the raw text matches the speaker pattern,
  \<^verbatim>\<open>parseScriptText\<close> returns one script line per non-blank line, in the order of the input:
  the captured speaker, and the captured utterance trimmed. In every case the texts it
  returns have no white space at either end, and the blank lines contribute nothing: the
  text made of the non-blank lines alone parses to the same result.
\<close>

theorem parseScriptText_wellformed:
  "(list_all (\<lambda>line. speakerRegex_match line \<noteq> None) (nonBlankLines raw) \<longrightarrow>
      parseScriptText raw = map parsedLine (nonBlankLines raw) \<and>
      length (parseScriptText raw) = length (nonBlankLines raw)) \<and>
   list_all (\<lambda>l. text' l = [] \<or>
                  (\<not> isWhiteSpace (hd (text' l)) \<and> \<not> isWhiteSpace (last (text' l))))
     (parseScriptText raw) \<and>
   parseScriptText (join (nonBlankLines raw) [0x0A]) = parseScriptText raw"
proof (intro conjI impI)
  assume "list_all (\<lambda>line. speakerRegex_match line \<noteq> None) (nonBlankLines raw)"
  then show r: "parseScriptText raw = map parsedLine (nonBlankLines raw)"
    using parseLoop_all_match [of "nonBlankLines raw" "[]"]
    by (simp add: parseScriptText_def nonBlankLines_def)
  show "length (parseScriptText raw) = length (nonBlankLines raw)"
    by (simp add: r)
next
  have "list_all (\<lambda>l. text' l = [] \<or>
                  (\<not> isWhiteSpace (hd (text' l)) \<and> \<not> isWhiteSpace (last (text' l))))
          (parseLoop lines acc)"
    if "list_all (\<lambda>l. text' l = [] \<or>
                  (\<not> isWhiteSpace (hd (text' l)) \<and> \<not> isWhiteSpace (last (text' l)))) acc"
    for lines acc
    using that
  proof (induction lines arbitrary: acc)
    case Nil
    then show ?case by simp
  next
    case (Cons line lines)
    show ?case
    proof (cases "speakerRegex_match line")
      case None
      then show ?thesis
        using Cons by simp
    next
      case (Some m)
      obtain m1 m2 where "m = (m1, m2)"
        by (cases m)
      then show ?thesis
        using Some Cons.prems trim_trimmed [of m2] by (auto intro!: Cons.IH)
    qed
  qed
  from this [of "[]"]
  show "list_all (\<lambda>l. text' l = [] \<or>
                  (\<not> isWhiteSpace (hd (text' l)) \<and> \<not> isWhiteSpace (last (text' l))))
     (parseScriptText raw)"
    by (simp add: parseScriptText_def)
next
  show "parseScriptText (join (nonBlankLines raw) [0x0A]) = parseScriptText raw"
    using nonBlankLines_join [of raw]
    by (simp add: parseScriptText_def nonBlankLines_def)
qed

text \<open>The example of the specification: the script on gravity.\<close>

lemma parseScriptText_example:
  "parseScriptText (js ''Person A: Gravity pulls objects together.'' @ [0x0A] @
                    js ''Person B: Right, and it depends on mass.'') =
     [\<lparr>speaker = js ''Person A'', text' = js ''Gravity pulls objects together.''\<rparr>,
      \<lparr>speaker = js ''Person B'', text' = js ''Right, and it depends on mass.''\<rparr>]"
  by (simp add: parseScriptText_def speakerRegex_match_def js_def trim_def toLowerCase_def
      asciiLower_def isAlnum_def isWhiteSpace_def isLineTerminator_def Let_def)

lemma exampleScript_lines:
  "nonBlankLines exampleScript = [js ''Person A:  Hi '', js ''person b2:yo'']"
  by (simp add: nonBlankLines_def exampleScript_def js_def trim_def isWhiteSpace_def
      isLineTerminator_def)

lemma exampleScript_matches:
  "speakerRegex_match (js ''Person A:  Hi '') = Some (js ''Person A'', js ''Hi '')"
  "speakerRegex_match (js ''person b2:yo'') = Some (js ''person b2'', js ''yo'')"
  by (simp_all add: speakerRegex_match_def js_def toLowerCase_def asciiLower_def isAlnum_def
      isWhiteSpace_def isLineTerminator_def Let_def)

theorem parseScriptText_wellformed_witness:
  "list_all (\<lambda>line. speakerRegex_match line \<noteq> None) (nonBlankLines exampleScript) \<and>
   parseScriptText exampleScript =
     [\<lparr>speaker = js ''Person A'', text' = js ''Hi''\<rparr>,
      \<lparr>speaker = js ''person b2'', text' = js ''yo''\<rparr>]"
proof -
  have h: "list_all (\<lambda>line. speakerRegex_match line \<noteq> None) (nonBlankLines exampleScript)"
    by (simp add: exampleScript_lines exampleScript_matches)
  have "trim (js ''Hi '') = js ''Hi''" "trim (js ''yo'') = js ''yo''"
    by (simp_all add: js_def trim_def isWhiteSpace_def isLineTerminator_def)
  then show ?thesis
    using h parseScriptText_wellformed [of exampleScript]
    by (simp add: exampleScript_lines exampleScript_matches parsedLine_def)
qed

section \<open>Properties: the edit handler\<close>

text \<open>
  C6: in every state in which an audio URL exists, \<^verbatim>\<open>handleUpdateScriptLine\<close> leaves the
  audio URL empty and the dirty flag set, whatever the index and whether or not the new
  text is the text the line had.
\<close>

theorem handleUpdateScriptLine_invalidates_audio:
  assumes "audioUrl st \<noteq> []"
  shows "audioUrl (handleUpdateScriptLine index newText newSpeaker st) = [] \<and>
         isScriptDirty (handleUpdateScriptLine index newText newSpeaker st)"
  by (simp add: handleUpdateScriptLine_def)

theorem handleUpdateScriptLine_invalidates_audio_witness:
  "audioUrl exampleState \<noteq> [] \<and>
   text' (scriptLines exampleState ! 0) = js ''Hi'' \<and>
   audioUrl (handleUpdateScriptLine 0 (js ''Hi'') None exampleState) = [] \<and>
   isScriptDirty (handleUpdateScriptLine 0 (js ''Hi'') None exampleState) \<and>
   audioUrl (handleUpdateScriptLine 7 (js ''other'') None exampleState) = [] \<and>
   isScriptDirty (handleUpdateScriptLine 7 (js ''other'') None exampleState)"
proof -
  have h: "audioUrl exampleState \<noteq> []"
    by (simp add: exampleState_def js_def)
  show ?thesis
    using h handleUpdateScriptLine_invalidates_audio [OF h, of 0 "js ''Hi''" None]
      handleUpdateScriptLine_invalidates_audio [OF h, of 7 "js ''other''" None]
    by (simp add: exampleState_def)
qed

text \<open>
  C9: for an index outside the bounds of the script-line list, \<^verbatim>\<open>handleUpdateScriptLine\<close>
  leaves the list as it was, and still clears the audio URL and sets the dirty flag.
\<close>

theorem handleUpdateScriptLine_out_of_bounds:
  assumes "index < 0 \<or> int (length (scriptLines st)) \<le> index"
  shows "scriptLines (handleUpdateScriptLine index newText newSpeaker st) = scriptLines st \<and>
         audioUrl (handleUpdateScriptLine index newText newSpeaker st) = [] \<and>
         isScriptDirty (handleUpdateScriptLine index newText newSpeaker st)"
  using assms by (auto simp add: handleUpdateScriptLine_def updateScriptLines_def Let_def)

theorem handleUpdateScriptLine_out_of_bounds_witness:
  "((2::int) < 0 \<or> int (length (scriptLines exampleState)) \<le> 2) \<and>
   scriptLines (handleUpdateScriptLine 2 (js ''x'') (Some (js ''Person C'')) exampleState)
     = scriptLines exampleState \<and>
   audioUrl (handleUpdateScriptLine 2 (js ''x'') (Some (js ''Person C'')) exampleState) = [] \<and>
   isScriptDirty (handleUpdateScriptLine 2 (js ''x'') (Some (js ''Person C'')) exampleState)"
proof -
  have h: "(2::int) < 0 \<or> int (length (scriptLines exampleState)) \<le> 2"
    by (simp add: exampleState_def)
  show ?thesis
    using h handleUpdateScriptLine_out_of_bounds [OF h, of "js ''x''" "Some (js ''Person C'')"]
    by simp
qed

end
